theory Spec2Isabelle
  imports Complex_Main
begin

section \<open>The job queue of the inference worker (worker.py)\<close>

text \<open>
  The worker keeps its queue in two SQLite tables, \<open>jobs\<close> and \<open>audio_submissions\<close>.
  Every function of the source opens a connection, runs one SQL statement (three for the
  status query), commits and closes. The model passes the database explicitly: a statement
  that writes is a function from the state to the new state (with what it returns, if it
  returns something), a lookup by key is a function of the state, and the status query
  returns its result together with the state it leaves behind.

  What lies outside the file is a parameter (record \<open>world\<close>): the value of
  \<open>CURRENT_TIMESTAMP\<close>, the file system test, the JSON codec and the three backends.
  Failures of the database connection itself (locked or missing file) are not modelled.
\<close>

subsection \<open>Columns and rows\<close>

type_synonym timestamp = nat

text \<open>\<open>status\<close> of a job: the four values of the CHECK constraint, class \<open>JobStatus\<close>.\<close>

datatype job_status = Pending | Processing | Completed | Failed

text \<open>\<open>status\<close> of a submission: the five values of its CHECK constraint.\<close>

datatype submission_status = SubPending | Transcribing | Summarizing | SubCompleted | SubFailed

text \<open>Class \<open>JobType\<close> and its \<open>.value\<close>.\<close>

datatype JobType = TRANSCRIBE | SUMMARIZE

fun JobType_value :: "JobType \<Rightarrow> string" where
  "JobType_value TRANSCRIBE = ''transcribe''"
| "JobType_value SUMMARIZE = ''summarize''"

text \<open>
  A row of \<open>jobs\<close>, which is also the dict that \<open>RETURNING *\<close> and \<open>SELECT *\<close> give back.
  \<open>job_type\<close> and \<open>provider\<close> stay strings, because \<open>process_job\<close> compares them as strings
  and has a branch for a type it does not know.
\<close>

record job_row =
  job_id :: int
  job_type :: string
  status :: job_status
  provider :: string
  input_file_path :: "string option"
  input_text :: "string option"
  output_text :: "string option"
  error_message :: "string option"
  audio_file_id :: "string option"
  metadata :: "string option"
  created_at :: timestamp
  started_at :: "timestamp option"
  completed_at :: "timestamp option"
  processing_time_ms :: "int option"
  model_used :: "string option"

text \<open>
  A row of \<open>audio_submissions\<close>: the key, the two NOT NULL columns and every column that a
  statement of the worker writes. The remaining descriptive columns (original name, MIME
  type, size, duration, metadata, creation time) are written once by the uploader and never
  read or written by the functions below.
\<close>

record sub_row =
  sub_id :: string
  filename :: string
  file_path :: string
  transcript :: "string option"
  transcript_job_id :: "int option"
  transcribed_at :: "timestamp option"
  summary :: "string option"
  summary_job_id :: "int option"
  summarized_at :: "timestamp option"
  sub_status :: submission_status
  sub_error_message :: "string option"
  updated_at :: "timestamp option"

text \<open>Which backend was called, and with what: the trace of the calls made so far.\<close>

datatype backend_call = WhisperCall string | DeepgramCall string | OllamaCall string

text \<open>
  Which statement \<open>process_job\<close> has run against the database, with the arguments of the
  call: \<open>update_audio_submission_status\<close>, \<open>complete_job\<close>, \<open>fail_job\<close>,
  \<open>update_audio_submission_transcript\<close>, \<open>update_audio_submission_summary\<close>, \<open>create_job\<close>.
\<close>

datatype store_call =
    UpdateStatus string submission_status "string option"
  | CompleteJob int string string int
  | FailJob int string
  | UpdateTranscript string string int
  | UpdateSummary string string int
  | CreateJob JobType "string option" "string option" "string option" string

text \<open>
  The state: both tables (rows in rowid order, as a scan of the table visits them), the
  counter of \<open>AUTOINCREMENT\<close> (table \<open>sqlite_sequence\<close>), the trace of backend calls, and
  the statements that \<open>process_job\<close> has run, in the order in which it ran them.
\<close>

record state =
  jobs :: "job_row list"
  audio_submissions :: "sub_row list"
  seq :: int
  invoked :: "backend_call list"
  issued :: "store_call list"

subsection \<open>JSON values and Python truthiness\<close>

text \<open>
  What \<open>json.loads\<close> returns. A dict is an association list with \<open>map_of\<close> as lookup.
  \<open>JNonFinite\<close> stands for the literals NaN, Infinity and -Infinity, which the decoder accepts.
\<close>

datatype json =
    JNull
  | JBool bool
  | JInt int
  | JFloat rat
  | JNonFinite
  | JString string
  | JArray "json list"
  | JObject "(string \<times> json) list"

text \<open>\<open>bool(v)\<close>: what \<open>if v:\<close> tests.\<close>

fun truthy :: "json \<Rightarrow> bool" where
  "truthy JNull = False"
| "truthy (JBool b) = b"
| "truthy (JInt n) = (n \<noteq> 0)"
| "truthy (JFloat r) = (r \<noteq> 0)"
| "truthy JNonFinite = True"
| "truthy (JString s) = (s \<noteq> [])"
| "truthy (JArray xs) = (xs \<noteq> [])"
| "truthy (JObject kv) = (kv \<noteq> [])"

text \<open>\<open>type(v).__name__\<close>, which the message of an AttributeError quotes.\<close>

fun py_type_name :: "json \<Rightarrow> string" where
  "py_type_name JNull = ''NoneType''"
| "py_type_name (JBool b) = ''bool''"
| "py_type_name (JInt n) = ''int''"
| "py_type_name (JFloat r) = ''float''"
| "py_type_name JNonFinite = ''float''"
| "py_type_name (JString s) = ''str''"
| "py_type_name (JArray xs) = ''list''"
| "py_type_name (JObject kv) = ''dict''"

text \<open>
  \<open>metadata.get(key, default)\<close>: a lookup on a dict, an AttributeError (\<open>Inl\<close>, with the text
  of \<open>str(e)\<close>) on anything else.
\<close>

fun py_get :: "json \<Rightarrow> string \<Rightarrow> json \<Rightarrow> string + json" where
  "py_get (JObject kv) k d = Inr (case map_of kv k of None \<Rightarrow> d | Some v \<Rightarrow> v)"
| "py_get v k d = Inl ([CHR 0x27] @ py_type_name v @ [CHR 0x27] @ '' object has no attribute '' @ [CHR 0x27] @ ''get'' @ [CHR 0x27])"

text \<open>Truthiness of an optional string: \<open>None\<close> and the empty string are false.\<close>

fun truthy_str :: "string option \<Rightarrow> bool" where
  "truthy_str None = False"
| "truthy_str (Some s) = (s \<noteq> [])"

subsection \<open>The world outside the file\<close>

text \<open>
  \<open>clock w k\<close> is the value of \<open>CURRENT_TIMESTAMP\<close> in the statement that \<open>process_job\<close>
  issues at position \<open>k\<close> of its text. A backend either raises (\<open>Inl\<close>, with \<open>str(e)\<close>) or
  returns the text, the model name and the time in milliseconds.
\<close>

record world =
  clock :: "nat \<Rightarrow> timestamp"
  path_exists :: "string \<Rightarrow> bool"
  json_loads :: "string \<Rightarrow> json option"
  json_dumps :: "json \<Rightarrow> string"
  whisper_backend :: "string \<Rightarrow> string + (string \<times> string \<times> int)"
  deepgram_backend :: "string \<Rightarrow> string + (string \<times> string \<times> int)"
  ollama_backend :: "string \<Rightarrow> string + (string \<times> string \<times> int)"

subsection \<open>Statements on the jobs table\<close>

datatype db_error = IntegrityError

text \<open>The CHECK constraint on \<open>provider\<close>.\<close>

definition provider_check :: "string \<Rightarrow> bool" where
  "provider_check p \<longleftrightarrow> p \<in> set [''local'', ''deepgram'', ''openai'', ''anthropic'']"

text \<open>
  \<open>AUTOINCREMENT\<close>: one more than the largest rowid the table has ever held.
\<close>

definition next_rowid :: "state \<Rightarrow> int" where
  "next_rowid s = fold max (map job_id (jobs s)) (max 0 (seq s)) + 1"

text \<open>
  \<open>create_job\<close>: one INSERT. The statement names six columns; the others take their
  defaults (\<open>status\<close> 'pending', \<open>created_at\<close> the current time, the rest NULL). A falsy
  \<open>metadata\<close> (None or the empty dict) is stored as NULL. No argument is inspected before
  the INSERT; the only rejection is the table's own CHECK on \<open>provider\<close>.
\<close>

definition create_job ::
  "world \<Rightarrow> timestamp \<Rightarrow> JobType \<Rightarrow> string option \<Rightarrow> string option \<Rightarrow> string option \<Rightarrow>
   (string \<times> json) list option \<Rightarrow> string \<Rightarrow> state \<Rightarrow> db_error + (int \<times> state)" where
  "create_job w now jt ifp itxt afid md prov s =
     (if \<not> provider_check prov then Inl IntegrityError
      else
        let new_id = next_rowid s;
            row = \<lparr> job_id = new_id,
                    job_type = JobType_value jt,
                    status = Pending,
                    provider = prov,
                    input_file_path = ifp,
                    input_text = itxt,
                    output_text = None,
                    error_message = None,
                    audio_file_id = afid,
                    metadata = (case md of None \<Rightarrow> None
                                | Some kv \<Rightarrow> if kv = [] then None else Some (json_dumps w (JObject kv))),
                    created_at = now,
                    started_at = None,
                    completed_at = None,
                    processing_time_ms = None,
                    model_used = None \<rparr>
        in Inr (new_id, s\<lparr>jobs := jobs s @ [row], seq := new_id\<rparr>))"

text \<open>
  The subquery of \<open>get_next_pending_job\<close>:
  \<open>SELECT id FROM jobs WHERE status = 'pending' ORDER BY created_at ASC LIMIT 1\<close>.
  The statement orders by \<open>created_at\<close> alone. SQLite answers it from the index
  \<open>idx_jobs_status_created\<close> on (status, created_at), whose entries with equal keys lie in
  rowid order; the model is the head of the stable sort of the pending rows, taken in
  rowid order.
\<close>

definition select_oldest_pending :: "job_row list \<Rightarrow> int option" where
  "select_oldest_pending js =
     (case sort_key created_at (filter (\<lambda>r. status r = Pending) js) of
        [] \<Rightarrow> None
      | r # _ \<Rightarrow> Some (job_id r))"

text \<open>
  \<open>get_next_pending_job\<close>: \<open>UPDATE ... WHERE id = (subquery) RETURNING *\<close>, then
  \<open>fetchone\<close>. \<open>RETURNING\<close> gives the rows as they are after the update. With no pending
  row the subquery is NULL, no row matches and \<open>fetchone\<close> is None.
\<close>

definition get_next_pending_job :: "timestamp \<Rightarrow> state \<Rightarrow> job_row option \<times> state" where
  "get_next_pending_job now s =
     (case select_oldest_pending (jobs s) of
        None \<Rightarrow> (None, s)
      | Some i \<Rightarrow>
          let js = map (\<lambda>r. if job_id r = i
                             then r\<lparr>status := Processing, started_at := Some now\<rparr>
                             else r) (jobs s)
          in (find (\<lambda>r. job_id r = i) js, s\<lparr>jobs := js\<rparr>))"

text \<open>\<open>complete_job\<close>: one UPDATE, whose WHERE clause is \<open>id = ?\<close> and nothing else.\<close>

definition complete_job :: "timestamp \<Rightarrow> int \<Rightarrow> string \<Rightarrow> string \<Rightarrow> int \<Rightarrow> state \<Rightarrow> state" where
  "complete_job now i out model ms s =
     s\<lparr>jobs := map (\<lambda>r. if job_id r = i
                         then r\<lparr>status := Completed,
                                output_text := Some out,
                                model_used := Some model,
                                processing_time_ms := Some ms,
                                completed_at := Some now\<rparr>
                         else r) (jobs s)\<rparr>"

text \<open>\<open>fail_job\<close>: likewise.\<close>

definition fail_job :: "timestamp \<Rightarrow> int \<Rightarrow> string \<Rightarrow> state \<Rightarrow> state" where
  "fail_job now i msg s =
     s\<lparr>jobs := map (\<lambda>r. if job_id r = i
                         then r\<lparr>status := Failed,
                                error_message := Some msg,
                                completed_at := Some now\<rparr>
                         else r) (jobs s)\<rparr>"

text \<open>\<open>get_job\<close>: \<open>SELECT * FROM jobs WHERE id = ?\<close>, then \<open>fetchone\<close>.\<close>

definition get_job :: "int \<Rightarrow> state \<Rightarrow> job_row option" where
  "get_job i s = find (\<lambda>r. job_id r = i) (jobs s)"

subsection \<open>Statements on the submissions table\<close>

definition get_audio_submission :: "string \<Rightarrow> state \<Rightarrow> sub_row option" where
  "get_audio_submission sid s = find (\<lambda>r. sub_id r = sid) (audio_submissions s)"

definition update_audio_submission_transcript ::
  "timestamp \<Rightarrow> string \<Rightarrow> string \<Rightarrow> int \<Rightarrow> state \<Rightarrow> state" where
  "update_audio_submission_transcript now sid txt i s =
     s\<lparr>audio_submissions :=
         map (\<lambda>r. if sub_id r = sid
                  then r\<lparr>transcript := Some txt,
                         transcript_job_id := Some i,
                         transcribed_at := Some now,
                         sub_status := Summarizing,
                         updated_at := Some now\<rparr>
                  else r) (audio_submissions s)\<rparr>"

definition update_audio_submission_summary ::
  "timestamp \<Rightarrow> string \<Rightarrow> string \<Rightarrow> int \<Rightarrow> state \<Rightarrow> state" where
  "update_audio_submission_summary now sid txt i s =
     s\<lparr>audio_submissions :=
         map (\<lambda>r. if sub_id r = sid
                  then r\<lparr>summary := Some txt,
                         summary_job_id := Some i,
                         summarized_at := Some now,
                         sub_status := SubCompleted,
                         updated_at := Some now\<rparr>
                  else r) (audio_submissions s)\<rparr>"

text \<open>
  \<open>update_audio_submission_status\<close>: the branch is on the truthiness of \<open>error_message\<close>,
  so the empty string takes the branch that leaves the column alone, as None does.
\<close>

definition update_audio_submission_status ::
  "timestamp \<Rightarrow> string \<Rightarrow> submission_status \<Rightarrow> string option \<Rightarrow> state \<Rightarrow> state" where
  "update_audio_submission_status now sid st msg s =
     (if truthy_str msg
      then s\<lparr>audio_submissions :=
               map (\<lambda>r. if sub_id r = sid
                        then r\<lparr>sub_status := st, sub_error_message := msg, updated_at := Some now\<rparr>
                        else r) (audio_submissions s)\<rparr>
      else s\<lparr>audio_submissions :=
               map (\<lambda>r. if sub_id r = sid
                        then r\<lparr>sub_status := st, updated_at := Some now\<rparr>
                        else r) (audio_submissions s)\<rparr>)"

subsection \<open>The status query\<close>

record queue_status =
  total_jobs :: nat
  pending :: nat
  processing :: nat
  completed :: nat
  failed :: nat
  avg_processing_time_ms :: "int option"

text \<open>\<open>SELECT status, COUNT(*) ... GROUP BY status\<close> as a dict: a status with no row has no key.\<close>

definition status_counts :: "job_row list \<Rightarrow> job_status \<Rightarrow> nat option" where
  "status_counts js st =
     (let n = length (filter (\<lambda>r. status r = st) js) in if n = 0 then None else Some n)"

text \<open>\<open>status_counts.get(k, 0)\<close>.\<close>

definition get_count :: "(job_status \<Rightarrow> nat option) \<Rightarrow> job_status \<Rightarrow> nat" where
  "get_count m st = (case m st of None \<Rightarrow> 0 | Some n \<Rightarrow> n)"

text \<open>
  \<open>AVG(processing_time_ms)\<close> over the completed rows that have a time: NULL on no row.
  The quotient is exact here; SQLite computes it in double precision.
\<close>

definition avg_time :: "job_row list \<Rightarrow> rat option" where
  "avg_time js =
     (let ts = List.map_filter processing_time_ms (filter (\<lambda>r. status r = Completed) js)
      in if ts = [] then None else Some (of_int (sum_list ts) / of_nat (length ts)))"

text \<open>Python's \<open>round\<close>: to the nearest integer, a half to the even neighbour.\<close>

definition py_round :: "rat \<Rightarrow> int" where
  "py_round x =
     (let f = \<lfloor>x\<rfloor>; d = x - of_int f
      in if d < 1 / 2 then f else if 1 / 2 < d then f + 1 else if even f then f else f + 1)"

text \<open>
  \<open>get_queue_status\<close>: three SELECTs and no commit. \<open>round(avg) if avg else None\<close>: an
  average of zero is falsy and reported as None.
\<close>

definition get_queue_status :: "state \<Rightarrow> queue_status \<times> state" where
  "get_queue_status s =
     (let counts = status_counts (jobs s);
          total = length (jobs s);
          avg = avg_time (jobs s)
      in (\<lparr> total_jobs = total,
            pending = get_count counts Pending,
            processing = get_count counts Processing,
            completed = get_count counts Completed,
            failed = get_count counts Failed,
            avg_processing_time_ms =
              (case avg of None \<Rightarrow> None | Some a \<Rightarrow> if a = 0 then None else Some (py_round a)) \<rparr>,
          s))"

subsection \<open>Backends\<close>

text \<open>
  The bodies of the backends are outside the model; what is kept is which one is called,
  on what, and what it gives back.
\<close>

definition transcribe_audio_local ::
  "world \<Rightarrow> string \<Rightarrow> state \<Rightarrow> (string + (string \<times> string \<times> int)) \<times> state" where
  "transcribe_audio_local w fp s =
     (whisper_backend w fp, s\<lparr>invoked := invoked s @ [WhisperCall fp]\<rparr>)"

definition transcribe_audio_deepgram ::
  "world \<Rightarrow> string \<Rightarrow> state \<Rightarrow> (string + (string \<times> string \<times> int)) \<times> state" where
  "transcribe_audio_deepgram w fp s =
     (deepgram_backend w fp, s\<lparr>invoked := invoked s @ [DeepgramCall fp]\<rparr>)"

text \<open>\<open>transcribe_audio\<close>: 'deepgram' goes to Deepgram, every other provider to the local model.\<close>

definition transcribe_audio ::
  "world \<Rightarrow> string \<Rightarrow> string \<Rightarrow> state \<Rightarrow> (string + (string \<times> string \<times> int)) \<times> state" where
  "transcribe_audio w fp prov s =
     (if prov = ''deepgram'' then transcribe_audio_deepgram w fp s
      else transcribe_audio_local w fp s)"

definition summarize_text ::
  "world \<Rightarrow> string \<Rightarrow> state \<Rightarrow> (string + (string \<times> string \<times> int)) \<times> state" where
  "summarize_text w txt s =
     (ollama_backend w txt, s\<lparr>invoked := invoked s @ [OllamaCall txt]\<rparr>)"

subsection \<open>Processing one job\<close>

datatype py_exn = JSONDecodeError

text \<open>
  Line 672, before the \<open>try\<close>: a falsy \<open>metadata\<close> column gives the empty dict, anything else
  goes through \<open>json.loads\<close>, whose exception (\<open>None\<close> here) is not caught by \<open>process_job\<close>.
\<close>

definition load_metadata :: "world \<Rightarrow> job_row \<Rightarrow> json option" where
  "load_metadata w job =
     (case metadata job of
        None \<Rightarrow> Some (JObject [])
      | Some t \<Rightarrow> if t = [] then Some (JObject []) else json_loads w t)"

text \<open>\<open>if audio_file_id:\<close> is a truthiness test: None and the empty string are unbound.\<close>

definition bound_submission :: "job_row \<Rightarrow> string option" where
  "bound_submission job =
     (case audio_file_id job of None \<Rightarrow> None | Some a \<Rightarrow> if a = [] then None else Some a)"

text \<open>\<open>str(e)\<close> of the IntegrityError that a failed CHECK raises.\<close>

fun db_error_str :: "db_error \<Rightarrow> string" where
  "db_error_str IntegrityError = ''CHECK constraint failed: jobs''"

text \<open>A statement has returned: it goes to the end of the trace.\<close>

definition logged :: "store_call \<Rightarrow> state \<Rightarrow> state" where
  "logged c s = s\<lparr>issued := issued s @ [c]\<rparr>"

text \<open>
  The body of the \<open>try\<close>. \<open>Inl (msg, s)\<close>: an exception with \<open>str(e) = msg\<close> was raised in
  state \<open>s\<close> (what was written before it stays written); \<open>Inr s\<close>: the body ran to its end.
  The transcribe branch:
\<close>

definition run_transcribe :: "world \<Rightarrow> job_row \<Rightarrow> json \<Rightarrow> state \<Rightarrow> (string \<times> state) + state" where
  "run_transcribe w job md s =
     (case input_file_path job of
        None \<Rightarrow> Inl (''No input file path for transcribe job'', s)
      | Some fp \<Rightarrow>
          if fp = [] then Inl (''No input file path for transcribe job'', s)
          else if \<not> path_exists w fp then Inl (''Audio file not found: '' @ fp, s)
          else
            let s1 = (case bound_submission job of
                        None \<Rightarrow> s
                      | Some sid \<Rightarrow>
                          logged (UpdateStatus sid Transcribing None)
                            (update_audio_submission_status (clock w 0) sid Transcribing None s))
            in (case transcribe_audio w fp (provider job) s1 of
                  (Inl msg, s2) \<Rightarrow> Inl (msg, s2)
                | (Inr (out, model, ms), s2) \<Rightarrow>
                    let s3 = logged (CompleteJob (job_id job) out model ms)
                               (complete_job (clock w 1) (job_id job) out model ms s2)
                    in (case bound_submission job of
                          None \<Rightarrow> Inr s3
                        | Some sid \<Rightarrow>
                            let s4 = logged (UpdateTranscript sid out (job_id job))
                                       (update_audio_submission_transcript (clock w 2) sid out
                                          (job_id job) s3)
                            in (case py_get md ''autoSummarize'' (JBool False) of
                                  Inl msg \<Rightarrow> Inl (msg, s4)
                                | Inr flag \<Rightarrow>
                                    if truthy flag
                                    then (case create_job w (clock w 3) SUMMARIZE None (Some out) (Some sid)
                                                 (Some [(''autoSummarize'', JBool True),
                                                        (''sourceJobId'', JInt (job_id job))])
                                                 ''local'' s4 of
                                            Inl e \<Rightarrow>
                                              Inl (db_error_str e,
                                                   logged (CreateJob SUMMARIZE None (Some out) (Some sid)
                                                             ''local'') s4)
                                          | Inr (new_id, s5) \<Rightarrow>
                                              Inr (logged (CreateJob SUMMARIZE None (Some out) (Some sid)
                                                             ''local'') s5))
                                    else Inr s4))))"

text \<open>The summarize branch: the provider of the job is not looked at.\<close>

definition run_summarize :: "world \<Rightarrow> job_row \<Rightarrow> state \<Rightarrow> (string \<times> state) + state" where
  "run_summarize w job s =
     (case input_text job of
        None \<Rightarrow> Inl (''No input text for summarize job'', s)
      | Some txt \<Rightarrow>
          if txt = [] then Inl (''No input text for summarize job'', s)
          else
            let s1 = (case bound_submission job of
                        None \<Rightarrow> s
                      | Some sid \<Rightarrow>
                          logged (UpdateStatus sid Summarizing None)
                            (update_audio_submission_status (clock w 4) sid Summarizing None s))
            in (case summarize_text w txt s1 of
                  (Inl msg, s2) \<Rightarrow> Inl (msg, s2)
                | (Inr (out, model, ms), s2) \<Rightarrow>
                    let s3 = logged (CompleteJob (job_id job) out model ms)
                               (complete_job (clock w 5) (job_id job) out model ms s2)
                    in (case bound_submission job of
                          None \<Rightarrow> Inr s3
                        | Some sid \<Rightarrow>
                            Inr (logged (UpdateSummary sid out (job_id job))
                                   (update_audio_submission_summary (clock w 6) sid out
                                      (job_id job) s3)))))"

definition try_body :: "world \<Rightarrow> job_row \<Rightarrow> json \<Rightarrow> state \<Rightarrow> (string \<times> state) + state" where
  "try_body w job md s =
     (if job_type job = ''transcribe'' then run_transcribe w job md s
      else if job_type job = ''summarize'' then run_summarize w job s
      else Inl (''Unknown job type: '' @ job_type job, s))"

text \<open>The \<open>except Exception\<close> clause: \<open>fail_job\<close>, then the submission if the job is bound.\<close>

definition on_exception :: "world \<Rightarrow> job_row \<Rightarrow> string \<Rightarrow> state \<Rightarrow> state" where
  "on_exception w job msg s =
     (let s1 = logged (FailJob (job_id job) msg) (fail_job (clock w 7) (job_id job) msg s)
      in case bound_submission job of
           None \<Rightarrow> s1
         | Some sid \<Rightarrow>
             logged (UpdateStatus sid SubFailed (Some msg))
               (update_audio_submission_status (clock w 8) sid SubFailed (Some msg) s1))"

text \<open>
  \<open>process_job\<close>. \<open>Inl\<close>: the exception of \<open>json.loads\<close> leaves the function, before any
  statement has run. \<open>Inr\<close>: the function returns, the job completed or failed.
\<close>

definition process_job :: "world \<Rightarrow> job_row \<Rightarrow> state \<Rightarrow> py_exn + state" where
  "process_job w job s =
     (case load_metadata w job of
        None \<Rightarrow> Inl JSONDecodeError
      | Some md \<Rightarrow>
          (case try_body w job md s of
             Inr s' \<Rightarrow> Inr s'
           | Inl (msg, s') \<Rightarrow> Inr (on_exception w job msg s')))"

subsection \<open>Successive claims\<close>

text \<open>
  What the loop of \<open>run_worker\<close> does with the queue: one \<open>get_next_pending_job\<close> after the
  other, at the given times, until the queue has no pending row; the rows it was handed.
\<close>

fun claim_all :: "timestamp list \<Rightarrow> state \<Rightarrow> job_row list" where
  "claim_all [] s = []"
| "claim_all (t # ts) s =
     (case get_next_pending_job t s of
        (None, _) \<Rightarrow> []
      | (Some r, s') \<Rightarrow> r # claim_all ts s')"

text \<open>
  Several callers of \<open>get_next_pending_job\<close>. Each call is one SQL statement, which SQLite
  runs as a whole under its write lock, so whatever the callers' timing the calls take
  effect one after the other, in some order. \<open>claim_attempts ts s\<close> is what the callers
  are handed when the calls take effect in the order of \<open>ts\<close>, the caller at position \<open>k\<close>
  running its statement at time \<open>ts ! k\<close>; unlike \<open>claim_all\<close>, a caller that finds nothing
  does not stop the others.
\<close>

fun claim_attempts :: "timestamp list \<Rightarrow> state \<Rightarrow> job_row option list" where
  "claim_attempts [] s = []"
| "claim_attempts (t # ts) s =
     (case get_next_pending_job t s of
        (r, s') \<Rightarrow> r # claim_attempts ts s')"

text \<open>The table is kept in rowid order (it is a B-tree on the rowid).\<close>

definition rowid_ordered :: "state \<Rightarrow> bool" where
  "rowid_ordered s \<longleftrightarrow> sorted_wrt (<) (map job_id (jobs s))"

subsection \<open>Concrete tables\<close>

text \<open>Small databases on which the theorems below are run.\<close>

definition ex_job :: job_row where
  "ex_job = \<lparr> job_id = 1, job_type = ''transcribe'', status = Pending, provider = ''local'',
      input_file_path = Some ''a.wav'', input_text = None, output_text = None,
      error_message = None, audio_file_id = Some ''S'', metadata = Some ''m'',
      created_at = 10, started_at = None, completed_at = None,
      processing_time_ms = None, model_used = None \<rparr>"

definition ex_sub :: sub_row where
  "ex_sub = \<lparr> sub_id = ''S'', filename = ''a.wav'', file_path = ''a.wav'', transcript = None,
      transcript_job_id = None, transcribed_at = None, summary = None, summary_job_id = None,
      summarized_at = None, sub_status = SubPending, sub_error_message = None,
      updated_at = None \<rparr>"

text \<open>One pending job, bound to the one submission.\<close>

definition ex_state :: state where
  "ex_state = \<lparr> jobs = [ex_job], audio_submissions = [ex_sub], seq = 1, invoked = [], issued = [] \<rparr>"

text \<open>
  Four jobs: 1 pending since 20, 2 and 3 pending since 10, 4 completed since 5.
\<close>

definition ex_queue :: state where
  "ex_queue = \<lparr> jobs = [ex_job\<lparr>created_at := 20\<rparr>,
                          ex_job\<lparr>job_id := 2\<rparr>,
                          ex_job\<lparr>job_id := 3\<rparr>,
                          ex_job\<lparr>job_id := 4, status := Completed, created_at := 5\<rparr>],
                  audio_submissions = [ex_sub], seq = 4, invoked = [], issued = [] \<rparr>"

text \<open>Three pending jobs enqueued at 10, 20 and 30.\<close>

definition ex_fifo :: state where
  "ex_fifo = \<lparr> jobs = [ex_job, ex_job\<lparr>job_id := 2, created_at := 20\<rparr>,
                         ex_job\<lparr>job_id := 3, created_at := 30\<rparr>],
                 audio_submissions = [ex_sub], seq = 3, invoked = [], issued = [] \<rparr>"

text \<open>Nothing pending: the one job is completed.\<close>

definition ex_idle :: state where
  "ex_idle = \<lparr> jobs = [ex_job\<lparr>status := Completed\<rparr>], audio_submissions = [ex_sub],
                 seq = 1, invoked = [], issued = [] \<rparr>"

text \<open>
  A world: the only file is \<open>a.wav\<close>; the metadata texts \<open>m\<close>, \<open>f\<close>, \<open>n\<close>, \<open>z\<close> and \<open>b\<close>
  decode to a dict whose \<open>autoSummarize\<close> is true, the string "false", the number 7, the
  number 0 and false; \<open>e\<close> decodes to the empty dict, \<open>l\<close> to a list, and nothing else
  decodes; the local transcriber
  returns "hello world", Deepgram answers with an error, and the summarizer raises an
  exception whose text is empty (a bare \<open>MemoryError()\<close>, say).
\<close>

definition ex_world :: world where
  "ex_world = \<lparr> clock = (\<lambda>k. 100 + k),
      path_exists = (\<lambda>p. p = ''a.wav''),
      json_loads = (\<lambda>t. if t = ''m'' then Some (JObject [(''autoSummarize'', JBool True)])
                         else if t = ''f'' then Some (JObject [(''autoSummarize'', JString ''false'')])
                         else if t = ''n'' then Some (JObject [(''autoSummarize'', JInt 7)])
                         else if t = ''z'' then Some (JObject [(''autoSummarize'', JInt 0)])
                         else if t = ''b'' then Some (JObject [(''autoSummarize'', JBool False)])
                         else if t = ''e'' then Some (JObject [])
                         else if t = ''l'' then Some (JArray [JInt 1])
                         else None),
      json_dumps = (\<lambda>j. ''chained''),
      whisper_backend = (\<lambda>p. Inr (''hello world'', ''whisper-large-v3'', 42)),
      deepgram_backend = (\<lambda>p. Inl ''Deepgram API error: 500 - ''),
      ollama_backend = (\<lambda>t. Inl []) \<rparr>"

text \<open>The job of \<open>ex_state\<close> once claimed, and the table it is then in.\<close>

definition ex_claimed :: job_row where
  "ex_claimed = ex_job\<lparr>status := Processing, started_at := Some 50\<rparr>"

definition ex_running :: state where
  "ex_running = \<lparr> jobs = [ex_claimed], audio_submissions = [ex_sub], seq = 1, invoked = [], issued = [] \<rparr>"

text \<open>
  A claimed summarize job for the same submission, which already holds a transcript and,
  from an earlier failed job, an error message.
\<close>

definition ex_sum_job :: job_row where
  "ex_sum_job = ex_job\<lparr>job_id := 2, job_type := ''summarize'', status := Processing,
      input_file_path := None, input_text := Some ''hello world'', metadata := None,
      created_at := 60, started_at := Some 70\<rparr>"

definition ex_sum_state :: state where
  "ex_sum_state = \<lparr> jobs = [ex_job\<lparr>status := Completed\<rparr>, ex_sum_job],
      audio_submissions = [ex_sub\<lparr>transcript := Some ''hello world'', sub_status := Summarizing,
                                  sub_error_message := Some ''Audio file not found: b.wav''\<rparr>],
      seq = 2, invoked = [], issued = [] \<rparr>"

section \<open>Properties\<close>

lemmas ex_defs = ex_job_def ex_sub_def ex_state_def ex_queue_def ex_fifo_def ex_idle_def
  ex_world_def ex_claimed_def ex_running_def ex_sum_job_def ex_sum_state_def

lemmas proc_defs = process_job_def load_metadata_def try_body_def run_transcribe_def run_summarize_def
  logged_def on_exception_def bound_submission_def transcribe_audio_def transcribe_audio_local_def
  transcribe_audio_deepgram_def summarize_text_def complete_job_def fail_job_def
  update_audio_submission_status_def update_audio_submission_transcript_def
  update_audio_submission_summary_def create_job_def next_rowid_def provider_check_def
  get_job_def get_audio_submission_def

subsection \<open>Rows and their identifiers\<close>

lemma find_map_upd_same:
  assumes "\<And>r. job_id (f r) = job_id r"
  shows "find (\<lambda>r. job_id r = i) (map (\<lambda>r. if job_id r = i then f r else r) xs)
       = map_option f (find (\<lambda>r. job_id r = i) xs)"
  using assms by (induction xs) auto

lemma find_map_upd_other:
  assumes "\<And>r. job_id (f r) = job_id r" and "k \<noteq> i"
  shows "find (\<lambda>r. job_id r = k) (map (\<lambda>r. if job_id r = i then f r else r) xs)
       = find (\<lambda>r. job_id r = k) xs"
  using assms by (induction xs) auto

lemma map_upd_absent:
  assumes "i \<notin> job_id ` set xs"
  shows "map (\<lambda>r. if job_id r = i then f r else r) xs = xs"
  using assms by (induction xs) auto

lemma map_claim_split:
  assumes "distinct (map job_id (us @ j # vs))" and "\<And>r. job_id (f r) = job_id r"
  shows "map (\<lambda>r. if job_id r = job_id j then f r else r) (us @ j # vs) = us @ f j # vs"
proof -
  have "\<forall>u\<in>set us. job_id u \<noteq> job_id j" "\<forall>v\<in>set vs. job_id v \<noteq> job_id j"
    using assms(1) by (auto simp: image_iff)
  then have "map (\<lambda>r. if job_id r = job_id j then f r else r) us = us"
    "map (\<lambda>r. if job_id r = job_id j then f r else r) vs = vs"
    by (simp_all add: map_idI)
  then show ?thesis by simp
qed

lemma find_distinct_id:
  assumes "distinct (map job_id xs)" and "p \<in> set xs"
  shows "find (\<lambda>r. job_id r = job_id p) xs = Some p"
  using assms by (induction xs) (auto simp: image_iff)

lemma rowid_ordered_distinct: "rowid_ordered s \<Longrightarrow> distinct (map job_id (jobs s))"
  by (simp add: rowid_ordered_def strict_sorted_iff)

subsection \<open>The head of a stable sort\<close>

lemma sort_key_head_min:
  assumes "sort_key f xs = j # rest"
  shows "j \<in> set xs \<and> (\<forall>k\<in>set xs. f j \<le> f k)"
proof -
  have "set (sort_key f xs) = set xs" by simp
  with assms have mem: "j \<in> set xs" and sub: "set xs = insert j (set rest)" by auto
  have "sorted (map f (sort_key f xs))" by (rule sorted_sort_key)
  with assms have "\<forall>k\<in>set rest. f j \<le> f k" by simp
  with mem sub show ?thesis by auto
qed

lemma sort_key_head_first:
  assumes "sort_key f xs = j # rest"
  shows "\<exists>us vs. xs = us @ j # vs \<and> (\<forall>u\<in>set us. f u \<noteq> f j)"
proof -
  have "filter (\<lambda>y. f y = f j) xs = filter (\<lambda>y. f y = f j) (sort_key f xs)"
    by (simp add: sort_key_stable)
  also have "\<dots> = j # filter (\<lambda>y. f y = f j) rest" using assms by simp
  finally show ?thesis by (auto simp: filter_eq_Cons_iff)
qed

lemma tie_break:
  assumes ord: "sorted_wrt (<) (map job_id xs)"
    and hd: "sort_key created_at xs = j # rest"
    and k: "k \<in> set xs" "created_at k = created_at j"
  shows "job_id j \<le> job_id k"
proof -
  obtain us vs where split: "xs = us @ j # vs" and before: "\<forall>u\<in>set us. created_at u \<noteq> created_at j"
    using sort_key_head_first [OF hd] by blast
  from k before split have "k = j \<or> k \<in> set vs" by auto
  moreover have "\<forall>v\<in>set vs. job_id j < job_id v"
    using ord split by (simp add: sorted_wrt_append)
  ultimately show ?thesis by auto
qed

subsection \<open>Claiming the next job\<close>

lemma filter_pending_map_claim:
  "filter (\<lambda>r. status r = Pending)
     (map (\<lambda>r. if job_id r = i then r\<lparr>status := Processing, started_at := Some now\<rparr> else r) xs)
   = filter (\<lambda>r. job_id r \<noteq> i) (filter (\<lambda>r. status r = Pending) xs)"
  by (induction xs) auto

lemma select_none:
  assumes "\<forall>r\<in>set (jobs s). status r \<noteq> Pending"
  shows "get_next_pending_job now s = (None, s)"
proof -
  have "filter (\<lambda>r. status r = Pending) (jobs s) = []" using assms by (simp add: filter_empty_conv)
  then show ?thesis by (simp add: get_next_pending_job_def select_oldest_pending_def)
qed

lemma claim_step:
  assumes ord: "rowid_ordered s"
    and hd: "sort_key created_at (filter (\<lambda>r. status r = Pending) (jobs s)) = j # rest"
  shows "get_next_pending_job now s =
          (Some (j\<lparr>status := Processing, started_at := Some now\<rparr>),
           s\<lparr>jobs := map (\<lambda>r. if job_id r = job_id j
                               then r\<lparr>status := Processing, started_at := Some now\<rparr>
                               else r) (jobs s)\<rparr>)"
proof -
  have "j \<in> set (filter (\<lambda>r. status r = Pending) (jobs s))"
    using sort_key_head_min [OF hd] by blast
  then have mem: "j \<in> set (jobs s)" by simp
  have "find (\<lambda>r. job_id r = job_id j) (jobs s) = Some j"
    using find_distinct_id [OF rowid_ordered_distinct [OF ord] mem] .
  then have "find (\<lambda>r. job_id r = job_id j)
         (map (\<lambda>r. if job_id r = job_id j
                    then r\<lparr>status := Processing, started_at := Some now\<rparr> else r) (jobs s))
       = Some (j\<lparr>status := Processing, started_at := Some now\<rparr>)"
    by (simp add: find_map_upd_same)
  then show ?thesis
    using hd by (simp add: get_next_pending_job_def select_oldest_pending_def Let_def)
qed

lemma claim_some:
  assumes ord: "rowid_ordered s" and ex: "\<exists>r\<in>set (jobs s). status r = Pending"
  shows "\<exists>us j vs. jobs s = us @ j # vs \<and> status j = Pending
          \<and> (\<forall>k\<in>set (jobs s). status k = Pending \<longrightarrow>
                 created_at j \<le> created_at k
                 \<and> (created_at k = created_at j \<longrightarrow> job_id j \<le> job_id k))
          \<and> get_next_pending_job now s =
               (Some (j\<lparr>status := Processing, started_at := Some now\<rparr>),
                s\<lparr>jobs := us @ j\<lparr>status := Processing, started_at := Some now\<rparr> # vs\<rparr>)"
proof -
  let ?pend = "filter (\<lambda>r. status r = Pending) (jobs s)"
  from ex have "?pend \<noteq> []" by (simp add: filter_empty_conv)
  then have "sort_key created_at ?pend \<noteq> []"
    by (metis length_sort length_0_conv)
  then obtain j rest where hd: "sort_key created_at ?pend = j # rest"
    by (cases "sort_key created_at ?pend") auto
  have jm: "j \<in> set ?pend" and least: "\<forall>k\<in>set ?pend. created_at j \<le> created_at k"
    using sort_key_head_min [OF hd] by blast+
  from jm have pj: "status j = Pending" and mem: "j \<in> set (jobs s)" by simp_all
  have ordp: "sorted_wrt (<) (map job_id ?pend)"
    using ord by (simp add: rowid_ordered_def sorted_wrt_map sorted_wrt_filter)
  have ties: "\<forall>k\<in>set ?pend. created_at k = created_at j \<longrightarrow> job_id j \<le> job_id k"
    using tie_break [OF ordp hd] by blast
  from mem obtain us vs where split: "jobs s = us @ j # vs" by (auto simp: in_set_conv_decomp)
  have dist: "distinct (map job_id (us @ j # vs))"
    using rowid_ordered_distinct [OF ord] split by simp
  have upd: "map (\<lambda>r. if job_id r = job_id j
                       then r\<lparr>status := Processing, started_at := Some now\<rparr> else r) (jobs s)
             = us @ j\<lparr>status := Processing, started_at := Some now\<rparr> # vs"
    unfolding split by (rule map_claim_split [OF dist]) simp
  have "get_next_pending_job now s =
          (Some (j\<lparr>status := Processing, started_at := Some now\<rparr>),
           s\<lparr>jobs := us @ j\<lparr>status := Processing, started_at := Some now\<rparr> # vs\<rparr>)"
    using claim_step [OF ord hd, of now] upd by simp
  with split pj least ties show ?thesis by (intro exI [of _ us] exI [of _ j] exI [of _ vs]) auto
qed

lemma claim_all_fifo:
  assumes "rowid_ordered s"
    and "sorted_wrt (<) (map created_at (filter (\<lambda>r. status r = Pending) (jobs s)))"
  shows "claim_all ts s =
           map (\<lambda>(t, r). r\<lparr>status := Processing, started_at := Some t\<rparr>)
               (zip ts (filter (\<lambda>r. status r = Pending) (jobs s)))"
  using assms
proof (induction ts arbitrary: s)
  case Nil
  then show ?case by simp
next
  case (Cons t ts)
  let ?pend = "filter (\<lambda>r. status r = Pending) (jobs s)"
  show ?case
  proof (cases ?pend)
    case Nil
    then have "\<forall>r\<in>set (jobs s). status r \<noteq> Pending" by (simp add: filter_empty_conv)
    then have "get_next_pending_job t s = (None, s)" by (rule select_none)
    with Nil show ?thesis by simp
  next
    case (Cons p ps)
    have "sorted (map created_at ?pend)"
      using Cons.prems(2) by (simp add: strict_sorted_iff)
    then have "sort_key created_at ?pend = ?pend"
      by (rule sort_key_id_if_sorted)
    then have hd: "sort_key created_at ?pend = p # ps"
      using Cons by simp
    let ?s' = "s\<lparr>jobs := map (\<lambda>r. if job_id r = job_id p
                               then r\<lparr>status := Processing, started_at := Some t\<rparr>
                               else r) (jobs s)\<rparr>"
    have step: "get_next_pending_job t s =
                  (Some (p\<lparr>status := Processing, started_at := Some t\<rparr>), ?s')"
      by (rule claim_step [OF Cons.prems(1) hd])
    have "distinct (map job_id ?pend)"
      using rowid_ordered_distinct [OF Cons.prems(1)] by (simp add: distinct_map_filter)
    with Cons have "\<forall>q\<in>set ps. job_id q \<noteq> job_id p" by (auto simp: image_iff)
    then have "filter (\<lambda>r. job_id r \<noteq> job_id p) ps = ps" by (simp add: filter_id_conv)
    then have pend': "filter (\<lambda>r. status r = Pending) (jobs ?s') = ps"
      using Cons by (simp add: filter_pending_map_claim)
    have ord': "rowid_ordered ?s'"
      using Cons.prems(1) by (simp add: rowid_ordered_def comp_def if_distrib cong: if_cong)
    have "sorted_wrt (<) (map created_at ps)" using Cons.prems(2) Cons by simp
    with pend' have "sorted_wrt (<) (map created_at (filter (\<lambda>r. status r = Pending) (jobs ?s')))"
      by simp
    from Cons.IH [OF ord' this] pend' step Cons show ?thesis by simp
  qed
qed

text \<open>
  One statement after the other: when exactly one row is pending, the first call takes it
  and a call that follows finds nothing.
\<close>

lemma single_pending_claimed_once:
  assumes ord: "rowid_ordered s"
    and one: "filter (\<lambda>r. status r = Pending) (jobs s) = [j]"
  shows "fst (get_next_pending_job t s) = Some (j\<lparr>status := Processing, started_at := Some t\<rparr>)
       \<and> get_next_pending_job t' (snd (get_next_pending_job t s))
           = (None, snd (get_next_pending_job t s))"
proof -
  have hd: "sort_key created_at (filter (\<lambda>r. status r = Pending) (jobs s)) = j # []"
    using one by simp
  note step = claim_step [OF ord hd, of t]
  let ?s' = "snd (get_next_pending_job t s)"
  have "filter (\<lambda>r. status r = Pending) (jobs ?s') = []"
    using step one by (simp add: filter_pending_map_claim)
  then have "\<forall>r\<in>set (jobs ?s'). status r \<noteq> Pending" by (simp add: filter_empty_conv)
  then have "get_next_pending_job t' ?s' = (None, ?s')" by (rule select_none)
  with step show ?thesis by simp
qed

text \<open>
  Claim C1, as the code has it. On a table in rowid order:
  with no pending row \<open>get_next_pending_job\<close> returns None and leaves the state as it was;
  with a pending row it picks a pending row \<open>j\<close> of least \<open>created_at\<close>, the one of least
  identifier among those of that time, rewrites exactly that row to \<open>processing\<close> with
  \<open>started_at\<close> the current time, and returns the row as rewritten (not as it was before);
  and when the pending rows were enqueued at strictly increasing times, successive calls
  hand them out in that order.
\<close>

theorem get_next_pending_job_claims_oldest:
  assumes "rowid_ordered s"
  shows "((\<forall>r\<in>set (jobs s). status r \<noteq> Pending) \<longrightarrow> get_next_pending_job now s = (None, s))
       \<and> ((\<exists>r\<in>set (jobs s). status r = Pending) \<longrightarrow>
            (\<exists>us j vs. jobs s = us @ j # vs \<and> status j = Pending
               \<and> (\<forall>k\<in>set (jobs s). status k = Pending \<longrightarrow>
                      created_at j \<le> created_at k
                      \<and> (created_at k = created_at j \<longrightarrow> job_id j \<le> job_id k))
               \<and> get_next_pending_job now s =
                    (Some (j\<lparr>status := Processing, started_at := Some now\<rparr>),
                     s\<lparr>jobs := us @ j\<lparr>status := Processing, started_at := Some now\<rparr> # vs\<rparr>)))
       \<and> (sorted_wrt (<) (map created_at (filter (\<lambda>r. status r = Pending) (jobs s))) \<longrightarrow>
            claim_all ts s =
              map (\<lambda>(t, r). r\<lparr>status := Processing, started_at := Some t\<rparr>)
                  (zip ts (filter (\<lambda>r. status r = Pending) (jobs s))))"
proof (intro conjI impI)
  assume "\<forall>r\<in>set (jobs s). status r \<noteq> Pending"
  then show "get_next_pending_job now s = (None, s)" by (rule select_none)
next
  assume "\<exists>r\<in>set (jobs s). status r = Pending"
  with assms show "\<exists>us j vs. jobs s = us @ j # vs \<and> status j = Pending
               \<and> (\<forall>k\<in>set (jobs s). status k = Pending \<longrightarrow>
                      created_at j \<le> created_at k
                      \<and> (created_at k = created_at j \<longrightarrow> job_id j \<le> job_id k))
               \<and> get_next_pending_job now s =
                    (Some (j\<lparr>status := Processing, started_at := Some now\<rparr>),
                     s\<lparr>jobs := us @ j\<lparr>status := Processing, started_at := Some now\<rparr> # vs\<rparr>)"
    by (rule claim_some)
next
  assume "sorted_wrt (<) (map created_at (filter (\<lambda>r. status r = Pending) (jobs s)))"
  with assms show "claim_all ts s =
              map (\<lambda>(t, r). r\<lparr>status := Processing, started_at := Some t\<rparr>)
                  (zip ts (filter (\<lambda>r. status r = Pending) (jobs s)))"
    by (rule claim_all_fifo)
qed

text \<open>
  The theorem on three tables: nothing pending; a tie between jobs 2 and 3 for the oldest
  time, which job 2 wins; three jobs enqueued one after the other and claimed in that order.
\<close>

theorem get_next_pending_job_claims_oldest_witness:
  "rowid_ordered ex_idle \<and> get_next_pending_job 50 ex_idle = (None, ex_idle)
   \<and> rowid_ordered ex_queue
   \<and> fst (get_next_pending_job 50 ex_queue)
       = Some (ex_job\<lparr>job_id := 2, status := Processing, started_at := Some 50\<rparr>)
   \<and> rowid_ordered ex_fifo
   \<and> map job_id (claim_all [50, 51, 52, 53] ex_fifo) = [1, 2, 3]"
proof -
  have o1: "rowid_ordered ex_idle" and o2: "rowid_ordered ex_queue" and o3: "rowid_ordered ex_fifo"
    by (simp_all add: rowid_ordered_def ex_defs)
  have "\<forall>r\<in>set (jobs ex_idle). status r \<noteq> Pending" by (simp add: ex_defs)
  with get_next_pending_job_claims_oldest [OF o1, of 50 "[]"]
  have a: "get_next_pending_job 50 ex_idle = (None, ex_idle)" by blast
  have b: "fst (get_next_pending_job 50 ex_queue)
       = Some (ex_job\<lparr>job_id := 2, status := Processing, started_at := Some 50\<rparr>)"
    by (simp add: get_next_pending_job_def select_oldest_pending_def ex_defs)
  have "sorted_wrt (<) (map created_at (filter (\<lambda>r. status r = Pending) (jobs ex_fifo)))"
    by (simp add: ex_defs)
  with get_next_pending_job_claims_oldest [OF o3, of 50 "[50, 51, 52, 53]"]
  have "claim_all [50, 51, 52, 53] ex_fifo =
      map (\<lambda>(t, r). r\<lparr>status := Processing, started_at := Some t\<rparr>)
          (zip [50, 51, 52, 53] (filter (\<lambda>r. status r = Pending) (jobs ex_fifo)))"
    by blast
  then have c: "map job_id (claim_all [50, 51, 52, 53] ex_fifo) = [1, 2, 3]"
    by (simp add: ex_defs)
  from o1 o2 o3 a b c show ?thesis by simp
qed

text \<open>
  Against C1 as stated (the call returns the row as it was before the transition): the row
  that comes back for the one pending job is the rewritten one, and it differs from the
  row that was in the table.
\<close>

theorem get_next_pending_job_returns_updated_row:
  "get_job 1 ex_state = Some ex_job
   \<and> fst (get_next_pending_job 50 ex_state)
       = Some (ex_job\<lparr>status := Processing, started_at := Some 50\<rparr>)
   \<and> fst (get_next_pending_job 50 ex_state) \<noteq> Some ex_job"
  by (simp add: get_next_pending_job_def select_oldest_pending_def get_job_def ex_defs)

subsection \<open>Several callers\<close>

text \<open>
  Several callers: with nothing pending all are turned away, and the identifiers handed
  out are identifiers of pending rows, each handed out once.
\<close>

lemma claim_attempts_none:
  assumes "\<forall>r\<in>set (jobs s). status r \<noteq> Pending"
  shows "claim_attempts ts s = replicate (length ts) None"
  using assms
proof (induction ts)
  case Nil
  then show ?case by simp
next
  case (Cons t ts)
  then show ?case by (simp add: select_none)
qed

lemma claim_attempts_ids:
  assumes "rowid_ordered s"
  shows "set (List.map_filter (map_option job_id) (claim_attempts ts s))
           \<subseteq> job_id ` set (filter (\<lambda>r. status r = Pending) (jobs s))
       \<and> distinct (List.map_filter (map_option job_id) (claim_attempts ts s))"
  using assms
proof (induction ts arbitrary: s)
  case Nil
  then show ?case by simp
next
  case (Cons t ts)
  let ?pend = "filter (\<lambda>r. status r = Pending) (jobs s)"
  show ?case
  proof (cases "sort_key created_at ?pend")
    case Nil
    then have "?pend = []" by (metis length_sort length_0_conv)
    then have "\<forall>r\<in>set (jobs s). status r \<noteq> Pending" by (simp add: filter_empty_conv)
    then have "claim_attempts (t # ts) s = replicate (length (t # ts)) None"
      by (rule claim_attempts_none)
    then show ?thesis by (simp add: List.map_filter_def)
  next
    case (Cons j rest)
    let ?s' = "s\<lparr>jobs := map (\<lambda>r. if job_id r = job_id j
                               then r\<lparr>status := Processing, started_at := Some t\<rparr>
                               else r) (jobs s)\<rparr>"
    have step: "get_next_pending_job t s =
                  (Some (j\<lparr>status := Processing, started_at := Some t\<rparr>), ?s')"
      by (rule claim_step [OF Cons.prems Cons])
    have ord': "rowid_ordered ?s'"
      using Cons.prems by (simp add: rowid_ordered_def comp_def if_distrib cong: if_cong)
    have pend': "filter (\<lambda>r. status r = Pending) (jobs ?s')
                 = filter (\<lambda>r. job_id r \<noteq> job_id j) ?pend"
      by (simp add: filter_pending_map_claim)
    have jm: "j \<in> set ?pend" using sort_key_head_min [OF Cons] by blast
    note ih = Cons.IH [OF ord']
    from ih have "set (List.map_filter (map_option job_id) (claim_attempts ts ?s'))
                 \<subseteq> job_id ` set (filter (\<lambda>r. status r = Pending) (jobs ?s'))"
      by (rule conjunct1)
    then have sub: "set (List.map_filter (map_option job_id) (claim_attempts ts ?s'))
                 \<subseteq> job_id ` set (filter (\<lambda>r. job_id r \<noteq> job_id j) ?pend)"
      unfolding pend' .
    from ih have dist: "distinct (List.map_filter (map_option job_id) (claim_attempts ts ?s'))"
      by (rule conjunct2)
    from sub have notin: "job_id j \<notin> set (List.map_filter (map_option job_id) (claim_attempts ts ?s'))"
      by auto
    from sub have sub2: "set (List.map_filter (map_option job_id) (claim_attempts ts ?s'))
                 \<subseteq> job_id ` set ?pend"
      by auto
    have "List.map_filter (map_option job_id) (claim_attempts (t # ts) s)
            = job_id j # List.map_filter (map_option job_id) (claim_attempts ts ?s')"
      using step by simp
    with notin dist sub2 jm show ?thesis by auto
  qed
qed

text \<open>
  Claim C7, with the atomicity of one SQL statement taken as given: the calls of several
  callers take effect one after the other, in an order that \<open>ts\<close> stands for, and every
  order is covered because \<open>ts\<close> is arbitrary. On a table in rowid order with exactly one
  pending row \<open>j\<close>, the caller whose statement runs first is handed \<open>j\<close> (as rewritten) and
  every other caller, however many there are, is handed None. And whatever is pending, no
  two callers are handed rows with the same identifier.
\<close>

theorem exactly_one_claim:
  assumes "rowid_ordered s"
  shows "(filter (\<lambda>r. status r = Pending) (jobs s) = [j] \<longrightarrow>
            claim_attempts (t # ts) s
              = Some (j\<lparr>status := Processing, started_at := Some t\<rparr>) # replicate (length ts) None)
       \<and> distinct (List.map_filter (map_option job_id) (claim_attempts ts s))"
proof (intro conjI impI)
  assume one: "filter (\<lambda>r. status r = Pending) (jobs s) = [j]"
  then have hd: "sort_key created_at (filter (\<lambda>r. status r = Pending) (jobs s)) = j # []"
    by simp
  let ?s' = "s\<lparr>jobs := map (\<lambda>r. if job_id r = job_id j
                               then r\<lparr>status := Processing, started_at := Some t\<rparr>
                               else r) (jobs s)\<rparr>"
  have step: "get_next_pending_job t s =
                (Some (j\<lparr>status := Processing, started_at := Some t\<rparr>), ?s')"
    by (rule claim_step [OF assms hd])
  have "filter (\<lambda>r. status r = Pending) (jobs ?s') = []"
    using one by (simp add: filter_pending_map_claim)
  then have "\<forall>r\<in>set (jobs ?s'). status r \<noteq> Pending" by (simp add: filter_empty_conv)
  then have "claim_attempts ts ?s' = replicate (length ts) None"
    by (rule claim_attempts_none)
  with step show "claim_attempts (t # ts) s
              = Some (j\<lparr>status := Processing, started_at := Some t\<rparr>) # replicate (length ts) None"
    by simp
next
  show "distinct (List.map_filter (map_option job_id) (claim_attempts ts s))"
    using claim_attempts_ids [OF assms] by blast
qed

text \<open>
  Four callers on the table with one pending job; five callers on the table with three
  pending jobs, who are handed jobs 2, 3 and 1, each once.
\<close>

theorem exactly_one_claim_witness:
  "rowid_ordered ex_state
   \<and> filter (\<lambda>r. status r = Pending) (jobs ex_state) = [ex_job]
   \<and> claim_attempts [50, 50, 51, 52] ex_state
       = [Some (ex_job\<lparr>status := Processing, started_at := Some 50\<rparr>), None, None, None]
   \<and> rowid_ordered ex_queue
   \<and> List.map_filter (map_option job_id) (claim_attempts [50, 50, 50, 50, 50] ex_queue) = [2, 3, 1]
   \<and> distinct (List.map_filter (map_option job_id) (claim_attempts [50, 50, 50, 50, 50] ex_queue))"
proof -
  have o1: "rowid_ordered ex_state" and o2: "rowid_ordered ex_queue"
    by (simp_all add: rowid_ordered_def ex_defs)
  have one: "filter (\<lambda>r. status r = Pending) (jobs ex_state) = [ex_job]"
    by (simp add: ex_defs)
  from exactly_one_claim [OF o1, where j = ex_job and t = 50 and ts = "[50, 51, 52]"] one
  have a: "claim_attempts [50, 50, 51, 52] ex_state
       = [Some (ex_job\<lparr>status := Processing, started_at := Some 50\<rparr>), None, None, None]"
    by (simp add: numeral_eq_Suc)
  from exactly_one_claim [OF o2, where ts = "[50, 50, 50, 50, 50]"]
  have b: "distinct (List.map_filter (map_option job_id) (claim_attempts [50, 50, 50, 50, 50] ex_queue))"
    by blast
  have c: "List.map_filter (map_option job_id) (claim_attempts [50, 50, 50, 50, 50] ex_queue) = [2, 3, 1]"
    by (simp add: get_next_pending_job_def select_oldest_pending_def ex_defs)
  from o1 o2 one a b c show ?thesis by simp
qed

subsection \<open>Marking a job completed or failed\<close>

text \<open>
  Claim C2, as the code has it. \<open>complete_job\<close> and \<open>fail_job\<close> do not look at the status
  of the row: for a job that is in the table, whatever its status, \<open>complete_job\<close> makes it
  \<open>completed\<close> with the output, the model, the time taken and the completion time, and
  \<open>fail_job\<close> makes it \<open>failed\<close> with the error message and the completion time.
\<close>

theorem terminal_marks_unguarded:
  assumes "get_job i s = Some r"
  shows "get_job i (complete_job now i out model ms s)
           = Some (r\<lparr>status := Completed, output_text := Some out, model_used := Some model,
                     processing_time_ms := Some ms, completed_at := Some now\<rparr>)
       \<and> get_job i (fail_job now i msg s)
           = Some (r\<lparr>status := Failed, error_message := Some msg, completed_at := Some now\<rparr>)"
  using assms by (simp add: get_job_def complete_job_def fail_job_def find_map_upd_same)

text \<open>The theorem on a job that is already completed: \<open>fail_job\<close> turns it into a failed one.\<close>

theorem terminal_marks_unguarded_witness:
  "get_job 1 ex_idle = Some (ex_job\<lparr>status := Completed\<rparr>)
   \<and> map_option status (get_job 1 (fail_job 70 1 ''late'' ex_idle)) = Some Failed
   \<and> map_option status (get_job 1 (complete_job 70 1 ''again'' ''m'' 3 ex_idle)) = Some Completed"
proof -
  have h: "get_job 1 ex_idle = Some (ex_job\<lparr>status := Completed\<rparr>)"
    by (simp add: get_job_def ex_defs)
  from terminal_marks_unguarded [OF h, of 70 "''again''" "''m''" 3 "''late''"] h
  show ?thesis by simp
qed

text \<open>
  Against C2 as stated (a job that is not processing is refused and its row stays as it
  is): a pending job that was never claimed is completed by \<open>complete_job\<close>, and a completed
  job is then failed by \<open>fail_job\<close>.
\<close>

theorem complete_job_overwrites_pending_and_terminal:
  "map_option status (get_job 1 ex_state) = Some Pending
   \<and> map_option status (get_job 1 (complete_job 60 1 ''out'' ''m'' 5 ex_state)) = Some Completed
   \<and> get_job 1 (complete_job 60 1 ''out'' ''m'' 5 ex_state) \<noteq> get_job 1 ex_state
   \<and> map_option status
        (get_job 1 (fail_job 70 1 ''late'' (complete_job 60 1 ''out'' ''m'' 5 ex_state)))
       = Some Failed"
  by (simp add: get_job_def complete_job_def fail_job_def ex_defs)

text \<open>
  Claim C9. For an identifier that no row of the jobs table carries, \<open>complete_job\<close> and
  \<open>fail_job\<close> leave the whole state as it was: no row is created, none is changed. Neither
  function has a raising path, so nothing is raised either.
\<close>

theorem absent_job_noop:
  assumes "i \<notin> job_id ` set (jobs s)"
  shows "complete_job now i out model ms s = s \<and> fail_job now i msg s = s"
  using assms by (simp add: complete_job_def fail_job_def map_upd_absent)

theorem absent_job_noop_witness:
  "7 \<notin> job_id ` set (jobs ex_state)
   \<and> complete_job 60 7 ''out'' ''m'' 5 ex_state = ex_state
   \<and> fail_job 60 7 ''boom'' ex_state = ex_state"
proof -
  have h: "7 \<notin> job_id ` set (jobs ex_state)" by (simp add: ex_defs)
  from absent_job_noop [OF h, of 60 "''out''" "''m''" 5 "''boom''"] h show ?thesis by simp
qed

subsection \<open>The status query\<close>

text \<open>
  Claim C8. \<open>get_queue_status\<close> leaves the state as it found it, and a second call right
  after the first returns the same record: the same counts per status, the same total and
  the same average time.
\<close>

theorem get_queue_status_idempotent:
  "snd (get_queue_status s) = s
   \<and> fst (get_queue_status (snd (get_queue_status s))) = fst (get_queue_status s)"
  by (simp add: get_queue_status_def Let_def)

theorem get_queue_status_idempotent_witness:
  "snd (get_queue_status ex_queue) = ex_queue
   \<and> fst (get_queue_status (snd (get_queue_status ex_queue))) = fst (get_queue_status ex_queue)"
  using get_queue_status_idempotent [of ex_queue] by simp

subsection \<open>What each statement leaves alone\<close>

lemma find_sub_map_same:
  assumes "\<And>r. sub_id (f r) = sub_id r"
  shows "find (\<lambda>r. sub_id r = sid) (map (\<lambda>r. if sub_id r = sid then f r else r) xs)
       = map_option f (find (\<lambda>r. sub_id r = sid) xs)"
  using assms by (induction xs) auto

lemma map_job_id_upd:
  assumes "\<And>r. job_id (f r) = job_id r"
  shows "map job_id (map (\<lambda>r. if job_id r = i then f r else r) xs) = map job_id xs"
  using assms by (induction xs) auto

lemma fold_max_ge: "a \<le> fold max xs (a::int)"
  by (induction xs arbitrary: a) (auto intro: order_trans [OF max.cobounded2])

lemma fold_max_mem: "x \<in> set xs \<Longrightarrow> x \<le> fold max xs (a::int)"
proof (induction xs arbitrary: a)
  case Nil
  then show ?case by simp
next
  case (Cons y ys)
  show ?case
  proof (cases "x = y")
    case True
    have "max y a \<le> fold max ys (max y a)" by (rule fold_max_ge)
    with True show ?thesis by simp
  next
    case False
    with Cons.prems have "x \<in> set ys" by simp
    then show ?thesis using Cons.IH by simp
  qed
qed

lemma next_rowid_fresh: "r \<in> set (jobs s) \<Longrightarrow> job_id r < next_rowid s"
  using fold_max_mem [of "job_id r" "map job_id (jobs s)" "max 0 (seq s)"]
  by (simp add: next_rowid_def)

lemma transcribe_audio_fst:
  "fst (transcribe_audio w fp prov s1) = fst (transcribe_audio w fp prov s)"
  by (simp add: transcribe_audio_def transcribe_audio_local_def transcribe_audio_deepgram_def)

lemma transcribe_audio_snd:
  "snd (transcribe_audio w fp prov s) =
     s\<lparr>invoked := invoked s @ [if prov = ''deepgram'' then DeepgramCall fp else WhisperCall fp]\<rparr>"
  by (simp add: transcribe_audio_def transcribe_audio_local_def transcribe_audio_deepgram_def)

text \<open>The successful, bound transcribe path, spelled out.\<close>

lemma run_transcribe_bound_ok:
  assumes fp: "input_file_path job = Some fp" "fp \<noteq> []" "path_exists w fp"
    and bound: "bound_submission job = Some sid"
    and backend: "fst (transcribe_audio w fp (provider job) s) = Inr (out, model, ms)"
    and flag: "py_get md ''autoSummarize'' (JBool False) = Inr flag"
  defines "s4 \<equiv> logged (UpdateTranscript sid out (job_id job))
                  (update_audio_submission_transcript (clock w 2) sid out (job_id job)
                    (logged (CompleteJob (job_id job) out model ms)
                      (complete_job (clock w 1) (job_id job) out model ms
                        (snd (transcribe_audio w fp (provider job)
                           (logged (UpdateStatus sid Transcribing None)
                              (update_audio_submission_status (clock w 0) sid Transcribing None s)))))))"
  shows "run_transcribe w job md s =
           (if truthy flag
            then (case create_job w (clock w 3) SUMMARIZE None (Some out) (Some sid)
                         (Some [(''autoSummarize'', JBool True), (''sourceJobId'', JInt (job_id job))])
                         ''local'' s4 of
                    Inl e \<Rightarrow>
                      Inl (db_error_str e,
                           logged (CreateJob SUMMARIZE None (Some out) (Some sid) ''local'') s4)
                  | Inr (new_id, s5) \<Rightarrow>
                      Inr (logged (CreateJob SUMMARIZE None (Some out) (Some sid) ''local'') s5))
            else Inr s4)"
proof -
  let ?s1 = "logged (UpdateStatus sid Transcribing None)
               (update_audio_submission_status (clock w 0) sid Transcribing None s)"
  obtain res s2 where run: "transcribe_audio w fp (provider job) ?s1 = (res, s2)"
    by (cases "transcribe_audio w fp (provider job) ?s1")
  have "fst (transcribe_audio w fp (provider job) ?s1) = Inr (out, model, ms)"
    using backend transcribe_audio_fst by metis
  with run have res: "res = Inr (out, model, ms)" by simp
  from run have s2: "snd (transcribe_audio w fp (provider job) ?s1) = s2" by simp
  show ?thesis
    unfolding s4_def s2 using fp bound flag run res
    by (simp add: run_transcribe_def Let_def del: One_nat_def)
qed

text \<open>What each statement does to a lookup in either table.\<close>

lemma get_job_complete_job:
  "get_job i (complete_job now i out model ms s)
     = map_option (\<lambda>r. r\<lparr>status := Completed, output_text := Some out, model_used := Some model,
                           processing_time_ms := Some ms, completed_at := Some now\<rparr>) (get_job i s)"
  by (simp add: get_job_def complete_job_def find_map_upd_same)

lemma get_job_fail_job:
  "get_job i (fail_job now i msg s)
     = map_option (\<lambda>r. r\<lparr>status := Failed, error_message := Some msg,
                           completed_at := Some now\<rparr>) (get_job i s)"
  by (simp add: get_job_def fail_job_def find_map_upd_same)

lemma get_job_sub_updates:
  "get_job i (update_audio_submission_status now sid st msg s) = get_job i s"
  "get_job i (update_audio_submission_transcript now sid txt k s) = get_job i s"
  "get_job i (update_audio_submission_summary now sid txt k s) = get_job i s"
  "get_job i (snd (transcribe_audio w fp prov s)) = get_job i s"
  "get_job i (snd (summarize_text w txt s)) = get_job i s"
  by (simp_all add: get_job_def update_audio_submission_status_def
      update_audio_submission_transcript_def update_audio_submission_summary_def
      transcribe_audio_snd summarize_text_def)

lemma jobs_sub_updates:
  "jobs (update_audio_submission_status now sid st msg s) = jobs s"
  "jobs (update_audio_submission_transcript now sid txt k s) = jobs s"
  "jobs (update_audio_submission_summary now sid txt k s) = jobs s"
  "jobs (snd (transcribe_audio w fp prov s)) = jobs s"
  "jobs (snd (summarize_text w txt s)) = jobs s"
  by (simp_all add: update_audio_submission_status_def
      update_audio_submission_transcript_def update_audio_submission_summary_def
      transcribe_audio_snd summarize_text_def)

lemma seq_updates:
  "seq (update_audio_submission_status now sid st msg s) = seq s"
  "seq (update_audio_submission_transcript now sid txt k s) = seq s"
  "seq (update_audio_submission_summary now sid txt k s) = seq s"
  "seq (snd (transcribe_audio w fp prov s)) = seq s"
  "seq (snd (summarize_text w txt s)) = seq s"
  "seq (complete_job now i out model ms s) = seq s"
  "seq (fail_job now i msg' s) = seq s"
  by (simp_all add: update_audio_submission_status_def
      update_audio_submission_transcript_def update_audio_submission_summary_def
      transcribe_audio_snd summarize_text_def complete_job_def fail_job_def)

lemma invoked_updates:
  "invoked (update_audio_submission_status now sid st msg s) = invoked s"
  "invoked (update_audio_submission_transcript now sid txt k s) = invoked s"
  "invoked (update_audio_submission_summary now sid txt k s) = invoked s"
  "invoked (complete_job now i out model ms s) = invoked s"
  "invoked (fail_job now i msg' s) = invoked s"
  "invoked (snd (transcribe_audio w fp prov s))
     = invoked s @ [if prov = ''deepgram'' then DeepgramCall fp else WhisperCall fp]"
  "invoked (snd (summarize_text w txt s)) = invoked s @ [OllamaCall txt]"
  by (simp_all add: update_audio_submission_status_def
      update_audio_submission_transcript_def update_audio_submission_summary_def
      transcribe_audio_snd summarize_text_def complete_job_def fail_job_def)

lemma job_ids_updates:
  "map job_id (jobs (complete_job now i out model ms s)) = map job_id (jobs s)"
  "map job_id (jobs (fail_job now i msg s)) = map job_id (jobs s)"
  by (simp_all add: complete_job_def fail_job_def map_job_id_upd)

lemma subs_job_updates:
  "audio_submissions (complete_job now i out model ms s) = audio_submissions s"
  "audio_submissions (fail_job now i msg s) = audio_submissions s"
  "audio_submissions (snd (transcribe_audio w fp prov s)) = audio_submissions s"
  "audio_submissions (snd (summarize_text w txt s)) = audio_submissions s"
  by (simp_all add: complete_job_def fail_job_def transcribe_audio_snd summarize_text_def)

lemma get_sub_job_updates:
  "get_audio_submission sid (complete_job now i out model ms s) = get_audio_submission sid s"
  "get_audio_submission sid (fail_job now i msg s) = get_audio_submission sid s"
  "get_audio_submission sid (snd (transcribe_audio w fp prov s)) = get_audio_submission sid s"
  "get_audio_submission sid (snd (summarize_text w txt s)) = get_audio_submission sid s"
  by (simp_all add: get_audio_submission_def subs_job_updates)

lemma get_sub_update_transcript:
  "get_audio_submission sid (update_audio_submission_transcript now sid txt i s)
     = map_option (\<lambda>r. r\<lparr>transcript := Some txt, transcript_job_id := Some i,
                           transcribed_at := Some now, sub_status := Summarizing,
                           updated_at := Some now\<rparr>) (get_audio_submission sid s)"
  by (simp add: get_audio_submission_def update_audio_submission_transcript_def find_sub_map_same)

lemma get_sub_update_status:
  "get_audio_submission sid (update_audio_submission_status now sid st msg s)
     = map_option (\<lambda>r. if truthy_str msg
                        then r\<lparr>sub_status := st, sub_error_message := msg, updated_at := Some now\<rparr>
                        else r\<lparr>sub_status := st, updated_at := Some now\<rparr>)
         (get_audio_submission sid s)"
  by (simp add: get_audio_submission_def update_audio_submission_status_def find_sub_map_same)

lemma logged_frame:
  "jobs (logged c s) = jobs s"
  "audio_submissions (logged c s) = audio_submissions s"
  "seq (logged c s) = seq s"
  "invoked (logged c s) = invoked s"
  "get_job i (logged c s) = get_job i s"
  "get_audio_submission sid (logged c s) = get_audio_submission sid s"
  "next_rowid (logged c s) = next_rowid s"
  "issued (logged c s) = issued s @ [c]"
  by (simp_all add: logged_def get_job_def get_audio_submission_def next_rowid_def)

lemma issued_updates:
  "issued (update_audio_submission_status now sid st msg s) = issued s"
  "issued (update_audio_submission_transcript now sid txt k s) = issued s"
  "issued (update_audio_submission_summary now sid txt k s) = issued s"
  "issued (complete_job now i out model ms s) = issued s"
  "issued (fail_job now i msg' s) = issued s"
  "issued (snd (transcribe_audio w fp prov s)) = issued s"
  "issued (snd (summarize_text w txt s)) = issued s"
  by (simp_all add: update_audio_submission_status_def
      update_audio_submission_transcript_def update_audio_submission_summary_def
      transcribe_audio_snd summarize_text_def complete_job_def fail_job_def)

lemmas frame_simps = get_job_complete_job get_job_fail_job get_job_sub_updates jobs_sub_updates
  seq_updates invoked_updates job_ids_updates subs_job_updates get_sub_job_updates
  get_sub_update_transcript get_sub_update_status
  logged_frame issued_updates

text \<open>No statement on an existing row moves it: the table stays in rowid order.\<close>

lemma job_ids_get_next_pending_job:
  "map job_id (jobs (snd (get_next_pending_job now s))) = map job_id (jobs s)"
  by (simp add: get_next_pending_job_def Let_def map_job_id_upd split: option.splits)

lemma rowid_ordered_kept:
  assumes "rowid_ordered s"
  shows "rowid_ordered (snd (get_next_pending_job now s))"
    and "rowid_ordered (complete_job now i out model ms s)"
    and "rowid_ordered (fail_job now i msg s)"
    and "rowid_ordered (update_audio_submission_status now sid st e s)"
    and "rowid_ordered (update_audio_submission_transcript now sid out i s)"
    and "rowid_ordered (update_audio_submission_summary now sid out i s)"
  using assms
  by (simp_all add: rowid_ordered_def job_ids_get_next_pending_job frame_simps)

subsection \<open>Chaining a summarize job\<close>

lemma process_job_transcribe_bound:
  assumes jt: "job_type job = ''transcribe''"
    and fp: "input_file_path job = Some fp" "fp \<noteq> []" "path_exists w fp"
    and afid: "audio_file_id job = Some sid" "sid \<noteq> []"
    and backend: "fst (transcribe_audio w fp (provider job) s) = Inr (out, model, ms)"
    and md: "load_metadata w job = Some (JObject kv)"
  defines "s4 \<equiv> logged (UpdateTranscript sid out (job_id job))
                  (update_audio_submission_transcript (clock w 2) sid out (job_id job)
                    (logged (CompleteJob (job_id job) out model ms)
                      (complete_job (clock w 1) (job_id job) out model ms
                        (snd (transcribe_audio w fp (provider job)
                           (logged (UpdateStatus sid Transcribing None)
                              (update_audio_submission_status (clock w 0) sid Transcribing None s)))))))"
  shows "process_job w job s =
           Inr (if truthy (case map_of kv ''autoSummarize'' of None \<Rightarrow> JBool False | Some v \<Rightarrow> v)
                then logged (CreateJob SUMMARIZE None (Some out) (Some sid) ''local'')
                       (s4\<lparr>jobs := jobs s4 @
                          [\<lparr> job_id = next_rowid s4, job_type = ''summarize'', status = Pending,
                             provider = ''local'', input_file_path = None, input_text = Some out,
                             output_text = None, error_message = None, audio_file_id = Some sid,
                             metadata = Some (json_dumps w (JObject [(''autoSummarize'', JBool True),
                                                                    (''sourceJobId'', JInt (job_id job))])),
                             created_at = clock w 3, started_at = None, completed_at = None,
                             processing_time_ms = None, model_used = None \<rparr>],
                        seq := next_rowid s4\<rparr>)
                else s4)"
proof -
  have b: "bound_submission job = Some sid" using afid by (simp add: bound_submission_def)
  have flag: "py_get (JObject kv) ''autoSummarize'' (JBool False)
                = Inr (case map_of kv ''autoSummarize'' of None \<Rightarrow> JBool False | Some v \<Rightarrow> v)"
    by simp
  note rt = run_transcribe_bound_ok [OF fp b backend flag]
  show ?thesis
    using md jt by (simp add: process_job_def try_body_def rt s4_def create_job_def
        provider_check_def Let_def del: One_nat_def)
qed

text \<open>
  Claim C3. Take a transcribe job with a file that exists, bound to a submission \<open>sid\<close>
  that is in the table, whose metadata decodes to a dict with \<open>autoSummarize\<close> true, and
  let the backend return the transcript \<open>out\<close>. Then \<open>process_job\<close> returns, having run
  four statements, in this order: the submission to \<open>transcribing\<close>, \<open>complete_job\<close>,
  \<open>update_audio_submission_transcript\<close>, and last the \<open>create_job\<close> of the chained job.
  The \<open>create_job\<close> runs in a state \<open>s4\<close> in which the first three have been run and no
  \<open>create_job\<close> has: \<open>s4\<close> has the same job rows as before, the transcribe job among them
  now \<open>completed\<close> with output \<open>out\<close>, and the submission \<open>summarizing\<close> with transcript
  \<open>out\<close>. The final state is \<open>s4\<close> with exactly one row appended: a \<open>pending\<close> summarize
  job with input text \<open>out\<close>, bound to \<open>sid\<close>, whose metadata is the dict of
  \<open>autoSummarize\<close> true and \<open>sourceJobId\<close> the identifier of the transcribe job; the
  submissions are those of \<open>s4\<close>.
\<close>

theorem transcribe_success_chains_summarize:
  assumes jt: "job_type job = ''transcribe''"
    and fp: "input_file_path job = Some fp" "fp \<noteq> []" "path_exists w fp"
    and afid: "audio_file_id job = Some sid" "sid \<noteq> []"
    and md: "load_metadata w job = Some (JObject kv)"
    and flag: "map_of kv ''autoSummarize'' = Some (JBool True)"
    and backend: "fst (transcribe_audio w fp (provider job) s) = Inr (out, model, ms)"
    and row: "get_job (job_id job) s = Some r"
    and sub: "get_audio_submission sid s = Some sub"
  shows "\<exists>s4 s5 s'. process_job w job s = Inr s'
     \<and> issued s4 = issued s @ [UpdateStatus sid Transcribing None,
                                CompleteJob (job_id job) out model ms,
                                UpdateTranscript sid out (job_id job)]
     \<and> create_job w (clock w 3) SUMMARIZE None (Some out) (Some sid)
          (Some [(''autoSummarize'', JBool True), (''sourceJobId'', JInt (job_id job))])
          ''local'' s4 = Inr (next_rowid s4, s5)
     \<and> s' = logged (CreateJob SUMMARIZE None (Some out) (Some sid) ''local'') s5
     \<and> issued s' = issued s @ [UpdateStatus sid Transcribing None,
                                CompleteJob (job_id job) out model ms,
                                UpdateTranscript sid out (job_id job),
                                CreateJob SUMMARIZE None (Some out) (Some sid) ''local'']
     \<and> map job_id (jobs s4) = map job_id (jobs s)
     \<and> get_job (job_id job) s4
         = Some (r\<lparr>status := Completed, output_text := Some out, model_used := Some model,
                   processing_time_ms := Some ms, completed_at := Some (clock w 1)\<rparr>)
     \<and> get_audio_submission sid s4
         = Some (sub\<lparr>transcript := Some out, transcript_job_id := Some (job_id job),
                     transcribed_at := Some (clock w 2), sub_status := Summarizing,
                     updated_at := Some (clock w 2)\<rparr>)
     \<and> jobs s' = jobs s4 @
          [\<lparr> job_id = next_rowid s4, job_type = ''summarize'', status = Pending,
             provider = ''local'', input_file_path = None, input_text = Some out,
             output_text = None, error_message = None, audio_file_id = Some sid,
             metadata = Some (json_dumps w (JObject [(''autoSummarize'', JBool True),
                                                    (''sourceJobId'', JInt (job_id job))])),
             created_at = clock w 3, started_at = None, completed_at = None,
             processing_time_ms = None, model_used = None \<rparr>]
     \<and> audio_submissions s' = audio_submissions s4"
proof -
  let ?s4 = "logged (UpdateTranscript sid out (job_id job))
                  (update_audio_submission_transcript (clock w 2) sid out (job_id job)
                    (logged (CompleteJob (job_id job) out model ms)
                      (complete_job (clock w 1) (job_id job) out model ms
                        (snd (transcribe_audio w fp (provider job)
                           (logged (UpdateStatus sid Transcribing None)
                              (update_audio_submission_status (clock w 0) sid Transcribing None s)))))))"
  let ?row = "\<lparr> job_id = next_rowid ?s4, job_type = ''summarize'', status = Pending,
             provider = ''local'', input_file_path = None, input_text = Some out,
             output_text = None, error_message = None, audio_file_id = Some sid,
             metadata = Some (json_dumps w (JObject [(''autoSummarize'', JBool True),
                                                    (''sourceJobId'', JInt (job_id job))])),
             created_at = clock w 3, started_at = None, completed_at = None,
             processing_time_ms = None, model_used = None \<rparr>"
  let ?s5 = "?s4\<lparr>jobs := jobs ?s4 @ [?row], seq := next_rowid ?s4\<rparr>"
  let ?s' = "logged (CreateJob SUMMARIZE None (Some out) (Some sid) ''local'') ?s5"
  have run: "process_job w job s = Inr ?s'"
    using process_job_transcribe_bound [OF jt fp afid backend md] flag by simp
  have tr4: "issued ?s4 = issued s @ [UpdateStatus sid Transcribing None,
                                CompleteJob (job_id job) out model ms,
                                UpdateTranscript sid out (job_id job)]"
    by (simp add: frame_simps)
  have enq: "create_job w (clock w 3) SUMMARIZE None (Some out) (Some sid)
          (Some [(''autoSummarize'', JBool True), (''sourceJobId'', JInt (job_id job))])
          ''local'' ?s4 = Inr (next_rowid ?s4, ?s5)"
    by (simp add: create_job_def provider_check_def Let_def)
  have tr': "issued ?s' = issued s @ [UpdateStatus sid Transcribing None,
                                CompleteJob (job_id job) out model ms,
                                UpdateTranscript sid out (job_id job),
                                CreateJob SUMMARIZE None (Some out) (Some sid) ''local'']"
    using tr4 by (simp add: logged_def)
  have ids: "map job_id (jobs ?s4) = map job_id (jobs s)"
    by (simp add: frame_simps)
  have fin: "get_job (job_id job) ?s4
         = Some (r\<lparr>status := Completed, output_text := Some out, model_used := Some model,
                   processing_time_ms := Some ms, completed_at := Some (clock w 1)\<rparr>)"
    using row by (simp add: frame_simps del: One_nat_def)
  have tr: "get_audio_submission sid ?s4
         = Some (sub\<lparr>transcript := Some out, transcript_job_id := Some (job_id job),
                     transcribed_at := Some (clock w 2), sub_status := Summarizing,
                     updated_at := Some (clock w 2)\<rparr>)"
    using sub by (simp add: frame_simps)
  have "jobs ?s' = jobs ?s4 @ [?row]" "audio_submissions ?s' = audio_submissions ?s4"
    by (simp_all add: logged_def)
  with run tr4 enq tr' ids fin tr show ?thesis
    by (intro exI [of _ ?s4] exI [of _ ?s5] exI [of _ ?s']) simp
qed

text \<open>The theorem on the claimed job of \<open>ex_running\<close>, whose transcript is "hello world".\<close>

theorem transcribe_success_chains_summarize_witness:
  "job_type ex_claimed = ''transcribe''
   \<and> load_metadata ex_world ex_claimed = Some (JObject [(''autoSummarize'', JBool True)])
   \<and> get_job 1 ex_running = Some ex_claimed
   \<and> get_audio_submission ''S'' ex_running = Some ex_sub
   \<and> \<not> isl (process_job ex_world ex_claimed ex_running)
   \<and> issued (projr (process_job ex_world ex_claimed ex_running))
       = [UpdateStatus ''S'' Transcribing None,
          CompleteJob 1 ''hello world'' ''whisper-large-v3'' 42,
          UpdateTranscript ''S'' ''hello world'' 1,
          CreateJob SUMMARIZE None (Some ''hello world'') (Some ''S'') ''local'']
   \<and> map (\<lambda>r. (job_id r, job_type r, status r, input_text r, audio_file_id r))
         (jobs (projr (process_job ex_world ex_claimed ex_running)))
       = [(1, ''transcribe'', Completed, None, Some ''S''),
          (2, ''summarize'', Pending, Some ''hello world'', Some ''S'')]
   \<and> map_option sub_status
         (get_audio_submission ''S'' (projr (process_job ex_world ex_claimed ex_running)))
       = Some Summarizing
   \<and> map_option transcript
         (get_audio_submission ''S'' (projr (process_job ex_world ex_claimed ex_running)))
       = Some (Some ''hello world'')"
proof -
  have jt: "job_type ex_claimed = ''transcribe''" by (simp add: ex_defs)
  have fp: "input_file_path ex_claimed = Some ''a.wav''" "''a.wav'' \<noteq> []"
      "path_exists ex_world ''a.wav''"
    by (simp_all add: ex_defs)
  have afid: "audio_file_id ex_claimed = Some ''S''" "''S'' \<noteq> []" by (simp_all add: ex_defs)
  have md: "load_metadata ex_world ex_claimed = Some (JObject [(''autoSummarize'', JBool True)])"
    by (simp add: load_metadata_def ex_defs)
  have flag: "map_of [(''autoSummarize'', JBool True)] ''autoSummarize'' = Some (JBool True)"
    by simp
  have backend: "fst (transcribe_audio ex_world ''a.wav'' (provider ex_claimed) ex_running)
                   = Inr (''hello world'', ''whisper-large-v3'', 42)"
    by (simp add: transcribe_audio_def transcribe_audio_local_def ex_defs)
  have row: "get_job (job_id ex_claimed) ex_running = Some ex_claimed"
    by (simp add: get_job_def ex_defs)
  have sub: "get_audio_submission ''S'' ex_running = Some ex_sub"
    by (simp add: get_audio_submission_def ex_defs)
  from transcribe_success_chains_summarize [OF jt fp afid md flag backend row sub]
  obtain s' where run: "process_job ex_world ex_claimed ex_running = Inr s'"
    and trace: "issued s' = issued ex_running
        @ [UpdateStatus ''S'' Transcribing None,
           CompleteJob (job_id ex_claimed) ''hello world'' ''whisper-large-v3'' 42,
           UpdateTranscript ''S'' ''hello world'' (job_id ex_claimed),
           CreateJob SUMMARIZE None (Some ''hello world'') (Some ''S'') ''local'']"
    by blast
  from run have ok: "\<not> isl (process_job ex_world ex_claimed ex_running)" by simp
  from run trace have order: "issued (projr (process_job ex_world ex_claimed ex_running))
       = [UpdateStatus ''S'' Transcribing None,
          CompleteJob 1 ''hello world'' ''whisper-large-v3'' 42,
          UpdateTranscript ''S'' ''hello world'' 1,
          CreateJob SUMMARIZE None (Some ''hello world'') (Some ''S'') ''local'']"
    by (simp add: ex_defs)
  have one: "get_job 1 ex_running = Some ex_claimed" using row by (simp add: ex_defs)
  have res: "map (\<lambda>r. (job_id r, job_type r, status r, input_text r, audio_file_id r))
         (jobs (projr (process_job ex_world ex_claimed ex_running)))
       = [(1, ''transcribe'', Completed, None, Some ''S''),
          (2, ''summarize'', Pending, Some ''hello world'', Some ''S'')]"
    "map_option sub_status
         (get_audio_submission ''S'' (projr (process_job ex_world ex_claimed ex_running)))
       = Some Summarizing"
    "map_option transcript
         (get_audio_submission ''S'' (projr (process_job ex_world ex_claimed ex_running)))
       = Some (Some ''hello world'')"
    by (simp_all add: proc_defs ex_defs Let_def)
  from jt md one sub ok order res show ?thesis by simp
qed

text \<open>
  Claim C10. For a transcribe job with a file that exists, bound to a submission, whose
  transcription succeeds and whose metadata is a dict (the empty dict when the column is
  NULL or empty), the chained summarize job is appended exactly when the value of
  \<open>autoSummarize\<close> in the dict, taken as False when the key is missing, is truthy in
  Python's sense; otherwise no row is appended.
\<close>

theorem auto_summarize_tests_truthiness:
  assumes jt: "job_type job = ''transcribe''"
    and fp: "input_file_path job = Some fp" "fp \<noteq> []" "path_exists w fp"
    and afid: "audio_file_id job = Some sid" "sid \<noteq> []"
    and backend: "fst (transcribe_audio w fp (provider job) s) = Inr (out, model, ms)"
    and md: "load_metadata w job = Some (JObject kv)"
  shows "\<exists>s4 s'. process_job w job s = Inr s'
     \<and> map job_id (jobs s4) = map job_id (jobs s)
     \<and> jobs s' = jobs s4 @
          (if truthy (case map_of kv ''autoSummarize'' of None \<Rightarrow> JBool False | Some v \<Rightarrow> v)
           then [\<lparr> job_id = next_rowid s4, job_type = ''summarize'', status = Pending,
                   provider = ''local'', input_file_path = None, input_text = Some out,
                   output_text = None, error_message = None, audio_file_id = Some sid,
                   metadata = Some (json_dumps w (JObject [(''autoSummarize'', JBool True),
                                                          (''sourceJobId'', JInt (job_id job))])),
                   created_at = clock w 3, started_at = None, completed_at = None,
                   processing_time_ms = None, model_used = None \<rparr>]
           else [])"
proof -
  let ?s4 = "logged (UpdateTranscript sid out (job_id job))
                  (update_audio_submission_transcript (clock w 2) sid out (job_id job)
                    (logged (CompleteJob (job_id job) out model ms)
                      (complete_job (clock w 1) (job_id job) out model ms
                        (snd (transcribe_audio w fp (provider job)
                           (logged (UpdateStatus sid Transcribing None)
                              (update_audio_submission_status (clock w 0) sid Transcribing None s)))))))"
  have ids: "map job_id (jobs ?s4) = map job_id (jobs s)"
    by (simp add: frame_simps)
  note run = process_job_transcribe_bound [OF jt fp afid backend md]
  show ?thesis
  proof (cases "truthy (case map_of kv ''autoSummarize'' of None \<Rightarrow> JBool False | Some v \<Rightarrow> v)")
    case True
    let ?row = "\<lparr> job_id = next_rowid ?s4, job_type = ''summarize'', status = Pending,
             provider = ''local'', input_file_path = None, input_text = Some out,
             output_text = None, error_message = None, audio_file_id = Some sid,
             metadata = Some (json_dumps w (JObject [(''autoSummarize'', JBool True),
                                                    (''sourceJobId'', JInt (job_id job))])),
             created_at = clock w 3, started_at = None, completed_at = None,
             processing_time_ms = None, model_used = None \<rparr>"
    let ?s' = "logged (CreateJob SUMMARIZE None (Some out) (Some sid) ''local'')
                 (?s4\<lparr>jobs := jobs ?s4 @ [?row], seq := next_rowid ?s4\<rparr>)"
    from run True have "process_job w job s = Inr ?s'" by simp
    moreover have "jobs ?s' = jobs ?s4 @ [?row]" by (simp add: logged_def)
    ultimately show ?thesis using ids True
      by (intro exI [of _ ?s4] exI [of _ ?s']) simp
  next
    case False
    from run False have "process_job w job s = Inr ?s4" by simp
    then show ?thesis using ids False
      by (intro exI [of _ ?s4]) simp
  qed
qed

text \<open>
  The flag as the string "false" and as the number 7 chains a summarize job; as the number
  0, as false, missing from the dict, or with no metadata at all, it does not.
\<close>

theorem auto_summarize_tests_truthiness_witness:
  "map job_type (jobs (projr (process_job ex_world (ex_claimed\<lparr>metadata := Some ''f''\<rparr>) ex_running)))
     = [''transcribe'', ''summarize'']
   \<and> map job_type (jobs (projr (process_job ex_world (ex_claimed\<lparr>metadata := Some ''n''\<rparr>) ex_running)))
     = [''transcribe'', ''summarize'']
   \<and> map job_type (jobs (projr (process_job ex_world (ex_claimed\<lparr>metadata := Some ''z''\<rparr>) ex_running)))
     = [''transcribe'']
   \<and> map job_type (jobs (projr (process_job ex_world (ex_claimed\<lparr>metadata := Some ''b''\<rparr>) ex_running)))
     = [''transcribe'']
   \<and> map job_type (jobs (projr (process_job ex_world (ex_claimed\<lparr>metadata := Some ''e''\<rparr>) ex_running)))
     = [''transcribe'']
   \<and> map job_type (jobs (projr (process_job ex_world (ex_claimed\<lparr>metadata := None\<rparr>) ex_running)))
     = [''transcribe'']
   \<and> length (jobs (projr (process_job ex_world (ex_claimed\<lparr>metadata := Some ''f''\<rparr>) ex_running)))
     = 2"
proof -
  let ?job = "ex_claimed\<lparr>metadata := Some ''f''\<rparr>"
  have jt: "job_type ?job = ''transcribe''" by (simp add: ex_defs)
  have fp: "input_file_path ?job = Some ''a.wav''" "''a.wav'' \<noteq> []"
      "path_exists ex_world ''a.wav''"
    by (simp_all add: ex_defs)
  have afid: "audio_file_id ?job = Some ''S''" "''S'' \<noteq> []" by (simp_all add: ex_defs)
  have md: "load_metadata ex_world ?job = Some (JObject [(''autoSummarize'', JString ''false'')])"
    by (simp add: load_metadata_def ex_defs)
  have backend: "fst (transcribe_audio ex_world ''a.wav'' (provider ?job) ex_running)
                   = Inr (''hello world'', ''whisper-large-v3'', 42)"
    by (simp add: transcribe_audio_def transcribe_audio_local_def ex_defs)
  from auto_summarize_tests_truthiness [OF jt fp afid backend md]
  obtain s4 :: state and s' where r: "process_job ex_world ?job ex_running = Inr s'"
      "map job_id (jobs s4) = map job_id (jobs ex_running)"
      "\<exists>row. jobs s' = jobs s4 @ [row]"
    by auto
  from r(2) have "length (jobs s4) = length (jobs ex_running)" by (metis length_map)
  with r have len: "length (jobs (projr (process_job ex_world ?job ex_running))) = 2"
    by (auto simp: ex_defs)
  have "map job_type (jobs (projr (process_job ex_world (ex_claimed\<lparr>metadata := Some ''f''\<rparr>) ex_running)))
     = [''transcribe'', ''summarize'']"
   "map job_type (jobs (projr (process_job ex_world (ex_claimed\<lparr>metadata := Some ''n''\<rparr>) ex_running)))
     = [''transcribe'', ''summarize'']"
   "map job_type (jobs (projr (process_job ex_world (ex_claimed\<lparr>metadata := Some ''z''\<rparr>) ex_running)))
     = [''transcribe'']"
   "map job_type (jobs (projr (process_job ex_world (ex_claimed\<lparr>metadata := Some ''b''\<rparr>) ex_running)))
     = [''transcribe'']"
   "map job_type (jobs (projr (process_job ex_world (ex_claimed\<lparr>metadata := Some ''e''\<rparr>) ex_running)))
     = [''transcribe'']"
   "map job_type (jobs (projr (process_job ex_world (ex_claimed\<lparr>metadata := None\<rparr>) ex_running)))
     = [''transcribe'']"
    by (simp_all add: proc_defs ex_defs Let_def)
  with len show ?thesis by simp
qed

subsection \<open>Dispatch\<close>

lemma invoked_on_exception: "invoked (on_exception w job msg s) = invoked s"
  by (simp add: on_exception_def Let_def frame_simps split: option.splits)

lemma get_job_on_exception:
  "get_job (job_id job) (on_exception w job msg s)
     = map_option (\<lambda>r. r\<lparr>status := Failed, error_message := Some msg,
                           completed_at := Some (clock w 7)\<rparr>) (get_job (job_id job) s)"
  by (simp add: on_exception_def Let_def frame_simps split: option.splits)

lemma get_sub_on_exception:
  assumes "audio_file_id job = Some sid" and "sid \<noteq> []"
  shows "get_audio_submission sid (on_exception w job msg s)
     = map_option (\<lambda>r. if msg \<noteq> []
                        then r\<lparr>sub_status := SubFailed, sub_error_message := Some msg,
                               updated_at := Some (clock w 8)\<rparr>
                        else r\<lparr>sub_status := SubFailed, updated_at := Some (clock w 8)\<rparr>)
         (get_audio_submission sid s)"
  using assms by (simp add: on_exception_def bound_submission_def Let_def frame_simps)

lemma invoked_create_job:
  "create_job w now jt ifp itxt afid md prov s = Inr (i, s') \<Longrightarrow> invoked s' = invoked s"
  by (auto simp: create_job_def Let_def split: if_splits)

text \<open>The state in which the body of the \<open>try\<close> stops, whichever way it stops.\<close>

lemma invoked_run_transcribe:
  assumes fp: "input_file_path job = Some fp" "fp \<noteq> []" "path_exists w fp"
  shows "invoked (case run_transcribe w job md s of Inl (m, s') \<Rightarrow> s' | Inr s' \<Rightarrow> s')
       = invoked s @ [if provider job = ''deepgram'' then DeepgramCall fp else WhisperCall fp]"
proof -
  let ?s1 = "case bound_submission job of None \<Rightarrow> s
             | Some sid \<Rightarrow>
                 logged (UpdateStatus sid Transcribing None)
                   (update_audio_submission_status (clock w 0) sid Transcribing None s)"
  obtain res s2 where run: "transcribe_audio w fp (provider job) ?s1 = (res, s2)"
    by (cases "transcribe_audio w fp (provider job) ?s1")
  then have "s2 = snd (transcribe_audio w fp (provider job) ?s1)" by simp
  then have inv: "invoked s2
      = invoked s @ [if provider job = ''deepgram'' then DeepgramCall fp else WhisperCall fp]"
    by (simp add: frame_simps split: option.splits)
  show ?thesis
    using fp run inv
    by (auto simp: run_transcribe_def Let_def frame_simps dest: invoked_create_job
        split: option.splits sum.splits prod.splits)
qed

lemma invoked_run_summarize:
  assumes inp: "input_text job = Some txt" "txt \<noteq> []"
  shows "invoked (case run_summarize w job s of Inl (m, s') \<Rightarrow> s' | Inr s' \<Rightarrow> s')
       = invoked s @ [OllamaCall txt]"
proof -
  let ?s1 = "case bound_submission job of None \<Rightarrow> s
             | Some sid \<Rightarrow>
                 logged (UpdateStatus sid Summarizing None)
                   (update_audio_submission_status (clock w 4) sid Summarizing None s)"
  obtain res s2 where run: "summarize_text w txt ?s1 = (res, s2)"
    by (cases "summarize_text w txt ?s1")
  then have "s2 = snd (summarize_text w txt ?s1)" by simp
  then have inv: "invoked s2 = invoked s @ [OllamaCall txt]"
    by (simp add: frame_simps split: option.splits)
  show ?thesis
    using inp run inv
    by (auto simp: run_summarize_def Let_def frame_simps split: option.splits sum.splits prod.splits)
qed

lemma process_job_final:
  assumes "load_metadata w job = Some md"
  shows "\<exists>s'. process_job w job s = Inr s'
           \<and> invoked s' = invoked (case try_body w job md s of Inl (m, s1) \<Rightarrow> s1 | Inr s1 \<Rightarrow> s1)"
  using assms by (auto simp: process_job_def invoked_on_exception split: sum.splits)

text \<open>The provider of a job is read in one place, the choice of the transcriber.\<close>

lemma provider_update_frame:
  "load_metadata w (job\<lparr>provider := p\<rparr>) = load_metadata w job"
  "bound_submission (job\<lparr>provider := p\<rparr>) = bound_submission job"
  by (simp_all add: load_metadata_def bound_submission_def)

lemma provider_update_unused:
  "on_exception w (job\<lparr>provider := p\<rparr>) msg s = on_exception w job msg s"
  "run_summarize w (job\<lparr>provider := p\<rparr>) s = run_summarize w job s"
  by (simp_all add: on_exception_def run_summarize_def provider_update_frame Let_def
      cong: option.case_cong sum.case_cong prod.case_cong if_cong)

lemma run_transcribe_local:
  assumes "provider job \<noteq> ''deepgram''"
  shows "run_transcribe w (job\<lparr>provider := ''local''\<rparr>) md s = run_transcribe w job md s"
proof -
  have "transcribe_audio w fp (provider job) s1 = transcribe_audio w fp ''local'' s1" for fp s1
    using assms by (simp add: transcribe_audio_def)
  then show ?thesis
    by (simp add: run_transcribe_def provider_update_frame Let_def
        cong: option.case_cong sum.case_cong prod.case_cong if_cong)
qed

lemma provider_only_deepgram:
  assumes "provider job \<noteq> ''deepgram''"
  shows "process_job w job s = process_job w (job\<lparr>provider := ''local''\<rparr>) s"
  using assms
  by (simp add: process_job_def try_body_def provider_update_frame provider_update_unused
      run_transcribe_local cong: option.case_cong sum.case_cong prod.case_cong if_cong)

lemma provider_unused_outside_transcribe:
  assumes "job_type job \<noteq> ''transcribe''"
  shows "process_job w (job\<lparr>provider := p\<rparr>) s = process_job w job s"
  using assms
  by (simp add: process_job_def try_body_def provider_update_frame provider_update_unused
      cong: option.case_cong sum.case_cong prod.case_cong if_cong)

text \<open>
  Claim C4, as the code has it. No provider is ever refused. A job whose provider is
  anything but 'deepgram' is processed exactly as the same job with provider 'local', and
  a job that is not a transcribe job is processed the same whatever its provider. When
  the metadata decodes: a job of a type other than 'transcribe' and 'summarize' is failed
  with the message "Unknown job type: ..." and no backend is called; a transcribe job
  with a file that exists and a provider other than 'deepgram' calls the local
  transcriber; a summarize job with a text calls the summarizer.
\<close>

theorem dispatch_does_not_reject_providers:
  "(provider job \<noteq> ''deepgram'' \<longrightarrow>
      process_job w job s = process_job w (job\<lparr>provider := ''local''\<rparr>) s)
   \<and> (job_type job \<noteq> ''transcribe'' \<longrightarrow>
      process_job w (job\<lparr>provider := p\<rparr>) s = process_job w job s)
   \<and> (load_metadata w job = Some md
        \<and> job_type job \<noteq> ''transcribe'' \<and> job_type job \<noteq> ''summarize'' \<longrightarrow>
           (\<exists>s'. process_job w job s = Inr s' \<and> invoked s' = invoked s
              \<and> get_job (job_id job) s'
                  = map_option (\<lambda>r. r\<lparr>status := Failed,
                                        error_message := Some (''Unknown job type: '' @ job_type job),
                                        completed_at := Some (clock w 7)\<rparr>)
                      (get_job (job_id job) s)))
   \<and> (load_metadata w job = Some md
        \<and> job_type job = ''transcribe'' \<and> input_file_path job = Some fp \<and> fp \<noteq> []
        \<and> path_exists w fp \<and> provider job \<noteq> ''deepgram'' \<longrightarrow>
           (\<exists>s'. process_job w job s = Inr s' \<and> invoked s' = invoked s @ [WhisperCall fp]))
   \<and> (load_metadata w job = Some md
        \<and> job_type job = ''summarize'' \<and> input_text job = Some itxt \<and> itxt \<noteq> [] \<longrightarrow>
           (\<exists>s'. process_job w job s = Inr s' \<and> invoked s' = invoked s @ [OllamaCall itxt]))"
proof (intro conjI impI)
  assume "provider job \<noteq> ''deepgram''"
  then show "process_job w job s = process_job w (job\<lparr>provider := ''local''\<rparr>) s"
    by (rule provider_only_deepgram)
next
  assume "job_type job \<noteq> ''transcribe''"
  then show "process_job w (job\<lparr>provider := p\<rparr>) s = process_job w job s"
    by (rule provider_unused_outside_transcribe)
next
  assume a: "load_metadata w job = Some md
        \<and> job_type job \<noteq> ''transcribe'' \<and> job_type job \<noteq> ''summarize''"
  then have "process_job w job s
      = Inr (on_exception w job (''Unknown job type: '' @ job_type job) s)"
    by (simp add: process_job_def try_body_def)
  then show "\<exists>s'. process_job w job s = Inr s' \<and> invoked s' = invoked s
              \<and> get_job (job_id job) s'
                  = map_option (\<lambda>r. r\<lparr>status := Failed,
                                        error_message := Some (''Unknown job type: '' @ job_type job),
                                        completed_at := Some (clock w 7)\<rparr>)
                      (get_job (job_id job) s)"
    by (simp add: invoked_on_exception get_job_on_exception)
next
  assume a: "load_metadata w job = Some md
        \<and> job_type job = ''transcribe'' \<and> input_file_path job = Some fp \<and> fp \<noteq> []
        \<and> path_exists w fp \<and> provider job \<noteq> ''deepgram''"
  then have md: "load_metadata w job = Some md" by simp
  from a have "try_body w job md s = run_transcribe w job md s" by (simp add: try_body_def)
  with process_job_final [OF md, of s] invoked_run_transcribe [of job fp w md s] a
  show "\<exists>s'. process_job w job s = Inr s' \<and> invoked s' = invoked s @ [WhisperCall fp]"
    by auto
next
  assume a: "load_metadata w job = Some md
        \<and> job_type job = ''summarize'' \<and> input_text job = Some itxt \<and> itxt \<noteq> []"
  then have md: "load_metadata w job = Some md" by simp
  from a have "try_body w job md s = run_summarize w job s" by (simp add: try_body_def)
  with process_job_final [OF md, of s] invoked_run_summarize [of job _ w s] a
  show "\<exists>s'. process_job w job s = Inr s' \<and> invoked s' = invoked s @ [OllamaCall itxt]"
    by auto
qed

text \<open>
  The theorem on a transcribe job for the provider 'nonexistent', on a summarize job for
  the provider 'anthropic', on a job of the unknown type 'translate' and on a transcribe
  job for the provider 'openai'.
\<close>

theorem dispatch_does_not_reject_providers_witness:
  "process_job ex_world (ex_claimed\<lparr>provider := ''nonexistent''\<rparr>) ex_running
     = process_job ex_world (ex_claimed\<lparr>provider := ''local''\<rparr>) ex_running
   \<and> process_job ex_world (ex_sum_job\<lparr>provider := ''anthropic''\<rparr>) ex_sum_state
     = process_job ex_world ex_sum_job ex_sum_state
   \<and> invoked (projr (process_job ex_world (ex_claimed\<lparr>job_type := ''translate''\<rparr>) ex_running)) = []
   \<and> map_option status
        (get_job 1 (projr (process_job ex_world (ex_claimed\<lparr>job_type := ''translate''\<rparr>) ex_running)))
       = Some Failed
   \<and> map_option error_message
        (get_job 1 (projr (process_job ex_world (ex_claimed\<lparr>job_type := ''translate''\<rparr>) ex_running)))
       = Some (Some ''Unknown job type: translate'')
   \<and> invoked (projr (process_job ex_world (ex_claimed\<lparr>provider := ''openai''\<rparr>) ex_running))
       = [WhisperCall ''a.wav'']
   \<and> invoked (projr (process_job ex_world (ex_sum_job\<lparr>provider := ''anthropic''\<rparr>) ex_sum_state))
       = [OllamaCall ''hello world'']"
proof -
  let ?u = "ex_claimed\<lparr>job_type := ''translate''\<rparr>"
  let ?t = "ex_claimed\<lparr>provider := ''openai''\<rparr>"
  let ?m = "ex_sum_job\<lparr>provider := ''anthropic''\<rparr>"
  let ?n = "ex_claimed\<lparr>provider := ''nonexistent''\<rparr>"
  have "provider ?n \<noteq> ''deepgram''" by (simp add: ex_defs)
  with dispatch_does_not_reject_providers [where job = ?n and w = ex_world and s = ex_running]
  have p: "process_job ex_world ?n ex_running
     = process_job ex_world (ex_claimed\<lparr>provider := ''local''\<rparr>) ex_running"
    by simp
  have "job_type ex_sum_job \<noteq> ''transcribe''" by (simp add: ex_defs)
  with dispatch_does_not_reject_providers
    [where job = ex_sum_job and w = ex_world and s = ex_sum_state and p = "''anthropic''"]
  have q: "process_job ex_world ?m ex_sum_state = process_job ex_world ex_sum_job ex_sum_state"
    by blast
  have "load_metadata ex_world ?u = Some (JObject [(''autoSummarize'', JBool True)])
      \<and> job_type ?u \<noteq> ''transcribe'' \<and> job_type ?u \<noteq> ''summarize''"
    by (simp add: load_metadata_def ex_defs)
  with dispatch_does_not_reject_providers
    [where job = ?u and w = ex_world and s = ex_running
       and md = "JObject [(''autoSummarize'', JBool True)]"]
  obtain s' where u: "process_job ex_world ?u ex_running = Inr s'" "invoked s' = invoked ex_running"
      "get_job (job_id ?u) s'
         = map_option (\<lambda>r. r\<lparr>status := Failed,
                               error_message := Some (''Unknown job type: '' @ job_type ?u),
                               completed_at := Some (clock ex_world 7)\<rparr>)
             (get_job (job_id ?u) ex_running)"
    by blast
  have a: "invoked (projr (process_job ex_world ?u ex_running)) = []"
    using u(1,2) by (simp add: ex_defs)
  have b: "map_option status (get_job 1 (projr (process_job ex_world ?u ex_running))) = Some Failed"
    "map_option error_message (get_job 1 (projr (process_job ex_world ?u ex_running)))
       = Some (Some ''Unknown job type: translate'')"
    using u(1,3) by (simp_all add: get_job_def ex_defs)
  have "load_metadata ex_world ?t = Some (JObject [(''autoSummarize'', JBool True)])
        \<and> job_type ?t = ''transcribe'' \<and> input_file_path ?t = Some ''a.wav'' \<and> ''a.wav'' \<noteq> []
        \<and> path_exists ex_world ''a.wav'' \<and> provider ?t \<noteq> ''deepgram''"
    by (simp add: load_metadata_def ex_defs)
  with dispatch_does_not_reject_providers
    [where job = ?t and w = ex_world and fp = "''a.wav''" and s = ex_running
       and md = "JObject [(''autoSummarize'', JBool True)]"]
  obtain s2 where "process_job ex_world ?t ex_running = Inr s2"
      "invoked s2 = invoked ex_running @ [WhisperCall ''a.wav'']"
    by blast
  then have c: "invoked (projr (process_job ex_world ?t ex_running)) = [WhisperCall ''a.wav'']"
    by (simp add: ex_defs)
  have "load_metadata ex_world ?m = Some (JObject [])
        \<and> job_type ?m = ''summarize'' \<and> input_text ?m = Some ''hello world''
        \<and> ''hello world'' \<noteq> []"
    by (simp add: load_metadata_def ex_defs)
  with dispatch_does_not_reject_providers
    [where job = ?m and w = ex_world and itxt = "''hello world''" and s = ex_sum_state
       and md = "JObject []"]
  obtain s3 where "process_job ex_world ?m ex_sum_state = Inr s3"
      "invoked s3 = invoked ex_sum_state @ [OllamaCall ''hello world'']"
    by blast
  then have d: "invoked (projr (process_job ex_world ?m ex_sum_state)) = [OllamaCall ''hello world'']"
    by (simp add: ex_defs)
  from p q a b c d show ?thesis by simp
qed

text \<open>
  Against C4 as stated (an unregistered provider fails the job and calls no backend): the
  transcribe job with provider 'nonexistent' is run by the local transcriber and ends
  completed, with no error; so does the one with provider 'openai', which the table admits.
\<close>

theorem unknown_provider_runs_local_backend:
  "provider (ex_claimed\<lparr>provider := ''nonexistent''\<rparr>) = ''nonexistent''
   \<and> invoked (projr (process_job ex_world (ex_claimed\<lparr>provider := ''nonexistent''\<rparr>) ex_running))
       = [WhisperCall ''a.wav'']
   \<and> map_option status
        (get_job 1 (projr (process_job ex_world (ex_claimed\<lparr>provider := ''nonexistent''\<rparr>) ex_running)))
       = Some Completed
   \<and> map_option error_message
        (get_job 1 (projr (process_job ex_world (ex_claimed\<lparr>provider := ''nonexistent''\<rparr>) ex_running)))
       = Some None
   \<and> map_option status
        (get_job 1 (projr (process_job ex_world (ex_claimed\<lparr>provider := ''openai''\<rparr>) ex_running)))
       = Some Completed"
  by (simp add: proc_defs ex_defs Let_def)

subsection \<open>Enqueueing\<close>

lemma rowid_ordered_append:
  assumes "rowid_ordered s" and "\<forall>r\<in>set (jobs s). job_id r < job_id row"
  shows "rowid_ordered (s\<lparr>jobs := jobs s @ [row], seq := n\<rparr>)"
  using assms by (simp add: rowid_ordered_def sorted_wrt_append)

text \<open>
  Claim C5, as the code has it. \<open>create_job\<close> looks at no input. Whenever the provider
  passes the CHECK of the table, whatever the type, the file path and the text are, one row
  is appended, \<open>pending\<close>, created now, holding the arguments as given, with an identifier
  above every identifier in the table (so the table stays in rowid order); when the
  provider fails the CHECK, the INSERT is refused and nothing is stored. The missing input
  is found only when the job is processed: the job is then failed with the message "No
  input file path for transcribe job" or "No input text for summarize job".
\<close>

theorem create_job_checks_provider_only:
  "(provider_check prov \<longrightarrow>
      (\<exists>row. create_job w now jt ifp itxt afid md prov s
                = Inr (job_id row, s\<lparr>jobs := jobs s @ [row], seq := job_id row\<rparr>)
         \<and> status row = Pending \<and> job_type row = JobType_value jt \<and> provider row = prov
         \<and> input_file_path row = ifp \<and> input_text row = itxt \<and> audio_file_id row = afid
         \<and> created_at row = now
         \<and> (\<forall>r\<in>set (jobs s). job_id r < job_id row)
         \<and> (rowid_ordered s \<longrightarrow> rowid_ordered (s\<lparr>jobs := jobs s @ [row], seq := job_id row\<rparr>))))
   \<and> (\<not> provider_check prov \<longrightarrow>
        create_job w now jt ifp itxt afid md prov s = Inl IntegrityError)
   \<and> (load_metadata w job = Some m \<and> job_type job = ''transcribe''
        \<and> \<not> truthy_str (input_file_path job) \<longrightarrow>
        process_job w job s = Inr (on_exception w job ''No input file path for transcribe job'' s))
   \<and> (load_metadata w job = Some m \<and> job_type job = ''summarize''
        \<and> \<not> truthy_str (input_text job) \<longrightarrow>
        process_job w job s = Inr (on_exception w job ''No input text for summarize job'' s))"
proof (intro conjI impI)
  assume ok: "provider_check prov"
  let ?row = "\<lparr> job_id = next_rowid s, job_type = JobType_value jt, status = Pending,
                 provider = prov, input_file_path = ifp, input_text = itxt, output_text = None,
                 error_message = None, audio_file_id = afid,
                 metadata = (case md of None \<Rightarrow> None
                             | Some kv \<Rightarrow> if kv = [] then None else Some (json_dumps w (JObject kv))),
                 created_at = now, started_at = None, completed_at = None,
                 processing_time_ms = None, model_used = None \<rparr>"
  have run: "create_job w now jt ifp itxt afid md prov s
           = Inr (job_id ?row, s\<lparr>jobs := jobs s @ [?row], seq := job_id ?row\<rparr>)"
    using ok by (simp add: create_job_def Let_def)
  have fresh: "\<forall>r\<in>set (jobs s). job_id r < job_id ?row"
    by (simp add: next_rowid_fresh)
  have "rowid_ordered s \<longrightarrow> rowid_ordered (s\<lparr>jobs := jobs s @ [?row], seq := job_id ?row\<rparr>)"
    using fresh by (blast intro: rowid_ordered_append)
  with run fresh
  show "\<exists>row. create_job w now jt ifp itxt afid md prov s
                = Inr (job_id row, s\<lparr>jobs := jobs s @ [row], seq := job_id row\<rparr>)
         \<and> status row = Pending \<and> job_type row = JobType_value jt \<and> provider row = prov
         \<and> input_file_path row = ifp \<and> input_text row = itxt \<and> audio_file_id row = afid
         \<and> created_at row = now
         \<and> (\<forall>r\<in>set (jobs s). job_id r < job_id row)
         \<and> (rowid_ordered s \<longrightarrow> rowid_ordered (s\<lparr>jobs := jobs s @ [row], seq := job_id row\<rparr>))"
    by (intro exI [of _ ?row]) simp
next
  assume "\<not> provider_check prov"
  then show "create_job w now jt ifp itxt afid md prov s = Inl IntegrityError"
    by (simp add: create_job_def)
next
  assume "load_metadata w job = Some m \<and> job_type job = ''transcribe''
        \<and> \<not> truthy_str (input_file_path job)"
  then show "process_job w job s
      = Inr (on_exception w job ''No input file path for transcribe job'' s)"
    by (cases "input_file_path job")
       (simp_all add: process_job_def try_body_def run_transcribe_def)
next
  assume "load_metadata w job = Some m \<and> job_type job = ''summarize''
        \<and> \<not> truthy_str (input_text job)"
  then show "process_job w job s
      = Inr (on_exception w job ''No input text for summarize job'' s)"
    by (cases "input_text job")
       (simp_all add: process_job_def try_body_def run_summarize_def)
qed

text \<open>
  The theorem on a transcribe request with no file for 'local', on a request for the
  provider 'nonexistent', and on processing a transcribe job with no file and a summarize
  job with an empty text.
\<close>

theorem create_job_checks_provider_only_witness:
  "provider_check ''local''
   \<and> \<not> isl (create_job ex_world 30 TRANSCRIBE None None None None ''local'' ex_state)
   \<and> map (\<lambda>r. (job_id r, status r, input_file_path r))
         (jobs (snd (projr (create_job ex_world 30 TRANSCRIBE None None None None ''local'' ex_state))))
       = [(1, Pending, Some ''a.wav''), (2, Pending, None)]
   \<and> \<not> provider_check ''nonexistent''
   \<and> create_job ex_world 30 TRANSCRIBE (Some ''a.wav'') None None None ''nonexistent'' ex_state
       = Inl IntegrityError
   \<and> map_option error_message
        (get_job 1 (projr (process_job ex_world (ex_claimed\<lparr>input_file_path := None\<rparr>) ex_running)))
       = Some (Some ''No input file path for transcribe job'')
   \<and> map_option error_message
        (get_job 2 (projr (process_job ex_world (ex_sum_job\<lparr>input_text := Some []\<rparr>) ex_sum_state)))
       = Some (Some ''No input text for summarize job'')"
proof -
  let ?t = "ex_claimed\<lparr>input_file_path := None\<rparr>"
  let ?m = "ex_sum_job\<lparr>input_text := Some []\<rparr>"
  have p1: "provider_check ''local''" and p2: "\<not> provider_check ''nonexistent''"
    by (simp_all add: provider_check_def)
  from p1 create_job_checks_provider_only [where prov = "''local''" and w = ex_world and now = 30 and jt = TRANSCRIBE
      and ifp = None and itxt = None and afid = None and md = None and s = ex_state]
  obtain row where r: "create_job ex_world 30 TRANSCRIBE None None None None ''local'' ex_state
                = Inr (job_id row, ex_state\<lparr>jobs := jobs ex_state @ [row], seq := job_id row\<rparr>)"
    by blast
  then have a: "\<not> isl (create_job ex_world 30 TRANSCRIBE None None None None ''local'' ex_state)"
    by simp
  have b: "map (\<lambda>r. (job_id r, status r, input_file_path r))
         (jobs (snd (projr (create_job ex_world 30 TRANSCRIBE None None None None ''local'' ex_state))))
       = [(1, Pending, Some ''a.wav''), (2, Pending, None)]"
    by (simp add: create_job_def provider_check_def next_rowid_def Let_def ex_defs)
  from p2 create_job_checks_provider_only [where prov = "''nonexistent''" and w = ex_world and now = 30 and jt = TRANSCRIBE
      and ifp = "Some ''a.wav''" and itxt = None and afid = None and md = None and s = ex_state]
  have c: "create_job ex_world 30 TRANSCRIBE (Some ''a.wav'') None None None ''nonexistent'' ex_state
       = Inl IntegrityError"
    by blast
  have "load_metadata ex_world ?t = Some (JObject [(''autoSummarize'', JBool True)])
        \<and> job_type ?t = ''transcribe'' \<and> \<not> truthy_str (input_file_path ?t)"
    by (simp add: load_metadata_def ex_defs)
  with create_job_checks_provider_only [where w = ex_world and job = ?t and s = ex_running]
  have "process_job ex_world ?t ex_running
      = Inr (on_exception ex_world ?t ''No input file path for transcribe job'' ex_running)"
    by blast
  then have d: "map_option error_message (get_job 1 (projr (process_job ex_world ?t ex_running)))
       = Some (Some ''No input file path for transcribe job'')"
    by (simp add: on_exception_def logged_def bound_submission_def fail_job_def get_job_def
        update_audio_submission_status_def Let_def ex_defs)
  have "load_metadata ex_world ?m = Some (JObject [])
        \<and> job_type ?m = ''summarize'' \<and> \<not> truthy_str (input_text ?m)"
    by (simp add: load_metadata_def ex_defs)
  with create_job_checks_provider_only [where w = ex_world and job = ?m and s = ex_sum_state]
  have "process_job ex_world ?m ex_sum_state
      = Inr (on_exception ex_world ?m ''No input text for summarize job'' ex_sum_state)"
    by blast
  then have e: "map_option error_message (get_job 2 (projr (process_job ex_world ?m ex_sum_state)))
       = Some (Some ''No input text for summarize job'')"
    by (simp add: on_exception_def logged_def bound_submission_def fail_job_def get_job_def
        update_audio_submission_status_def Let_def ex_defs)
  from p1 p2 a b c d e show ?thesis by simp
qed

text \<open>
  Against C5 as stated (a transcribe job without a file and a summarize job without a text
  are refused before anything is stored): both requests return an identifier and leave a
  second, pending row in the table.
\<close>

theorem create_job_accepts_missing_input:
  "\<not> isl (create_job ex_world 30 TRANSCRIBE None None None None ''local'' ex_state)
   \<and> map (\<lambda>r. (job_id r, job_type r, status r, input_file_path r, input_text r))
         (jobs (snd (projr (create_job ex_world 30 TRANSCRIBE None None None None ''local'' ex_state))))
       = [(1, ''transcribe'', Pending, Some ''a.wav'', None), (2, ''transcribe'', Pending, None, None)]
   \<and> \<not> isl (create_job ex_world 30 SUMMARIZE None None None None ''local'' ex_state)
   \<and> map (\<lambda>r. (job_id r, job_type r, status r, input_file_path r, input_text r))
         (jobs (snd (projr (create_job ex_world 30 SUMMARIZE None None None None ''local'' ex_state))))
       = [(1, ''transcribe'', Pending, Some ''a.wav'', None), (2, ''summarize'', Pending, None, None)]"
  by (simp add: create_job_def provider_check_def next_rowid_def Let_def ex_defs)

subsection \<open>A failed job and its submission\<close>

text \<open>
  When the metadata decodes and the body of the \<open>try\<close> raises for a job bound to \<open>sid\<close>:
  the job is failed with the message, the submission is failed, and its error message is
  overwritten only if the message of the exception is not empty. (When the metadata does
  not decode, the exception of \<open>json.loads\<close> leaves \<open>process_job\<close> and neither the job
  nor the submission is touched.)
\<close>

lemma failure_reaches_submission:
  assumes md: "load_metadata w job = Some md"
    and body: "try_body w job md s = Inl (msg, s1)"
    and afid: "audio_file_id job = Some sid" "sid \<noteq> []"
  shows "\<exists>s'. process_job w job s = Inr s'
     \<and> get_job (job_id job) s'
         = map_option (\<lambda>r. r\<lparr>status := Failed, error_message := Some msg,
                               completed_at := Some (clock w 7)\<rparr>) (get_job (job_id job) s1)
     \<and> get_audio_submission sid s'
         = map_option (\<lambda>r. if msg \<noteq> []
                            then r\<lparr>sub_status := SubFailed, sub_error_message := Some msg,
                                   updated_at := Some (clock w 8)\<rparr>
                            else r\<lparr>sub_status := SubFailed, updated_at := Some (clock w 8)\<rparr>)
             (get_audio_submission sid s1)"
  using md body by (simp add: process_job_def get_job_on_exception get_sub_on_exception [OF afid])

text \<open>
  Claim C6 on a failing input. The summarize job 2 is bound to submission 'S', which holds
  a transcript and the error message of an earlier failure. The summarizer raises an
  exception whose text is empty. The job is failed with the empty message, the submission
  is failed, and the error message of the submission is still the old one, not the
  message of the job.
\<close>

theorem empty_error_message_not_copied:
  "audio_file_id ex_sum_job = Some ''S''
   \<and> map_option sub_error_message (get_audio_submission ''S'' ex_sum_state)
       = Some (Some ''Audio file not found: b.wav'')
   \<and> \<not> isl (process_job ex_world ex_sum_job ex_sum_state)
   \<and> map_option status (get_job 2 (projr (process_job ex_world ex_sum_job ex_sum_state)))
       = Some Failed
   \<and> map_option error_message (get_job 2 (projr (process_job ex_world ex_sum_job ex_sum_state)))
       = Some (Some [])
   \<and> map_option sub_status
        (get_audio_submission ''S'' (projr (process_job ex_world ex_sum_job ex_sum_state)))
       = Some SubFailed
   \<and> map_option sub_error_message
        (get_audio_submission ''S'' (projr (process_job ex_world ex_sum_job ex_sum_state)))
       = Some (Some ''Audio file not found: b.wav'')"
  by (simp add: proc_defs ex_defs Let_def)

end
